theory Spec2Isabelle
  imports Main
begin

section \<open>A reloadable database: the \<open>DatabaseInterface\<close> class of \<open>database_interface.py\<close>\<close>

text \<open>
  The class keeps one Python object (``the database'') in memory, pickles it into a file
  named after the current time, and records the name of that file in a pointer file
  (``most recent save file''). This theory embeds the class method by method and proves
  the properties of loading, saving and the two context managers.

  What the embedding makes explicit:
  \<^item> a Python string is the list of its code points, so that \<open>str.strip\<close> removes every
    character Python counts as whitespace;
  \<^item> Python objects live in a heap, a list of cells indexed by address; a Python value is
    \<open>None\<close> or a reference \<open>Some a\<close>, so that \<open>x is None\<close> is \<open>x = None\<close> and object
    identity is equality of addresses. A cell holds the whole state of the object graph
    below a top-level object. References held by a program are live (\<open>a < length heap\<close>).
  \<^item> the disk is a map from files to their contents, and the file system decides which
    file a path names (\<open>resolve\<close>): two paths may name one file. Contents are stored as
    written, and the only way opening a file fails is that the path names no file
    (\<open>FileNotFoundError\<close>);
  \<^item> every access to the disk and every \<open>print\<close> is appended to a trace;
  \<^item> \<open>pickle\<close>, the clock and the bodies of \<open>with\<close> blocks are parameters;
  \<^item> exceptions are values of \<open>exn\<close>, and a method returns \<open>Inl\<close> of the exception it
    raises or \<open>Inr\<close> of its result, with the object and the world as it leaves them.
\<close>

subsection \<open>Strings: \<open>readline\<close>, \<open>strip\<close>, \<open>os.path.join\<close>, \<open>os.path.normpath\<close>\<close>

type_synonym str = "nat list"

text \<open>A string literal of the source, as code points.\<close>

definition lit :: "string \<Rightarrow> str" where
  "lit s = map of_char s"

definition LF :: nat where "LF = 0x0A"
definition CR :: nat where "CR = 0x0D"
definition sep :: nat where "sep = 0x2F"
definition dot :: nat where "dot = 0x2E"

text \<open>The characters for which \<open>str.isspace\<close> holds, all of Unicode: tab to carriage
  return, the separators \<open>1C\<close> to \<open>1F\<close>, the space, next line, the no-break space, the
  Ogham space mark, the spaces \<open>2000\<close> to \<open>200A\<close>, the line and paragraph separators,
  the narrow no-break space, the medium mathematical space and the ideographic space.\<close>

definition is_space :: "nat \<Rightarrow> bool" where
  "is_space c =
     ((0x09 \<le> c \<and> c \<le> 0x0D) \<or> (0x1C \<le> c \<and> c \<le> 0x20)
      \<or> c = 0x85 \<or> c = 0xA0 \<or> c = 0x1680
      \<or> (0x2000 \<le> c \<and> c \<le> 0x200A)
      \<or> c = 0x2028 \<or> c = 0x2029 \<or> c = 0x202F \<or> c = 0x205F \<or> c = 0x3000)"

text \<open>\<open>str.strip()\<close>: whitespace removed at both ends.\<close>

definition strip :: "str \<Rightarrow> str" where
  "strip s = rev (dropWhile is_space (rev (dropWhile is_space s)))"

text \<open>\<open>readline()\<close> on a file opened in text mode: the text up to and including the first
  line break, every kind of line break (\<open>\n\<close>, \<open>\r\<close>, \<open>\r\n\<close>) read as \<open>\n\<close>; the
  rest of the text when there is none.\<close>

fun readline :: "str \<Rightarrow> str" where
  "readline [] = []"
| "readline (c # cs) = (if c = LF \<or> c = CR then [LF] else c # readline cs)"

text \<open>\<open>posixpath.join(a, b)\<close> with one component \<open>b\<close>.\<close>

definition join :: "str \<Rightarrow> str \<Rightarrow> str" where
  "join a b =
     (if b \<noteq> [] \<and> hd b = sep then b
      else if a = [] \<or> last a = sep then a @ b
      else a @ [sep] @ b)"

text \<open>\<open>path.split('/')\<close> and \<open>'/'.join(comps)\<close>. The result of \<open>split\<close> is
  never empty: a character other than the separator joins the first component of the
  rest.\<close>

fun split_sep :: "str \<Rightarrow> str list" where
  "split_sep [] = [] # []"
| "split_sep (c # cs) =
     (if c = sep then [] # split_sep cs
      else (case split_sep cs of
              [] \<Rightarrow> [c] # []
            | x # xs \<Rightarrow> (c # x) # xs))"

fun join_sep :: "str list \<Rightarrow> str" where
  "join_sep [] = []"
| "join_sep [x] = x"
| "join_sep (x # y # ys) = x @ [sep] @ join_sep (y # ys)"

text \<open>\<open>posixpath.normpath\<close>. \<open>initial_slashes\<close> is 0, 1 or 2 (two leading slashes are
  kept, three or more collapse to one); \<open>norm_step\<close> is the body of the loop over the
  components, \<open>new_comps\<close> growing and shrinking at its end.\<close>

definition initial_slashes :: "str \<Rightarrow> nat" where
  "initial_slashes path =
     (if take 1 path = [sep] then
        (if take 2 path = [sep, sep] \<and> take 3 path \<noteq> [sep, sep, sep] then 2 else 1)
      else 0)"

definition norm_step :: "nat \<Rightarrow> str list \<Rightarrow> str \<Rightarrow> str list" where
  "norm_step slashes new_comps component =
     (if component = [] \<or> component = [dot] then new_comps
      else if component \<noteq> [dot, dot] \<or> (slashes = 0 \<and> new_comps = [])
              \<or> (new_comps \<noteq> [] \<and> last new_comps = [dot, dot])
        then new_comps @ [component]
      else if new_comps \<noteq> [] then butlast new_comps
      else new_comps)"

definition normpath :: "str \<Rightarrow> str" where
  "normpath path =
     (if path = [] then [dot]
      else
        let slashes = initial_slashes path;
            comps = foldl (norm_step slashes) [] (split_sep path);
            path' = replicate slashes sep @ join_sep comps
        in if path' = [] then [dot] else path')"

subsection \<open>Exceptions, the heap, the disk\<close>

text \<open>\<open>NoDatabaseError\<close> is the class the module declares (a subclass of
  \<open>RuntimeError\<close>); \<open>RuntimeError\<close> and \<open>FileNotFoundError\<close> are the two built-in
  classes it raises and catches by name. \<open>OtherException\<close> is any other subclass of
  \<open>Exception\<close>, \<open>NonException\<close> a \<open>BaseException\<close> outside \<open>Exception\<close>
  (\<open>KeyboardInterrupt\<close>, \<open>SystemExit\<close>).\<close>

datatype exn =
    NoDatabaseError
  | FileNotFoundError
  | RuntimeError
  | OtherException string
  | NonException string

fun is_Exception :: "exn \<Rightarrow> bool" where
  "is_Exception (NonException n) = False"
| "is_Exception e = True"

type_synonym addr = nat
type_synonym pyref = "addr option"

datatype event =
    Stat str
  | MkDir str
  | OpenRead str
  | OpenWrite str
  | Print str

text \<open>\<open>files\<close> maps a file to its content and \<open>dirs\<close> is the set of directories;
  \<open>resolve\<close> gives the file or directory that a path names, as the file system of the
  machine decides it (current directory, \<open>.\<close> and \<open>..\<close>, links).\<close>

record 'v world =
  files :: "str \<rightharpoonup> str"
  resolve :: "str \<Rightarrow> str"
  dirs :: "str set"
  heap :: "'v list"
  trace :: "event list"

definition emit :: "event \<Rightarrow> 'v world \<Rightarrow> 'v world" where
  "emit e w = w\<lparr>trace := trace w @ [e]\<rparr>"

text \<open>The content of the file that a path names, if it names one.\<close>

definition file_at :: "'v world \<Rightarrow> str \<Rightarrow> str option" where
  "file_at w p = files w (resolve w p)"

text \<open>A file opened for writing under a path and closed with the content \<open>c\<close>: the
  file the path names is created or replaced.\<close>

definition write_file :: "str \<Rightarrow> str \<Rightarrow> 'v world \<Rightarrow> 'v world" where
  "write_file p c w = (emit (OpenWrite p) w)\<lparr>files := (files w)(resolve w p \<mapsto> c)\<rparr>"

text \<open>\<open>pickle.dump\<close> returns the bytes it writes, or raises after having written some
  bytes. \<open>pickle.load\<close> works on the heap: it raises, or returns \<open>None\<close> or a reference
  to the object it has read, which it creates or, for a value that Python shares, finds.\<close>

record 'v pickle =
  pickle_dump :: "'v \<Rightarrow> (exn \<times> str) + str"
  pickle_load :: "str \<Rightarrow> 'v list \<Rightarrow> (exn + pyref) \<times> 'v list"

text \<open>\<open>database_creator\<close> is any callable: it may raise, return \<open>None\<close>, return an
  object it creates or one that exists. It is taken to work on objects only.\<close>

type_synonym 'v factory = "'v list \<Rightarrow> (exn + pyref) \<times> 'v list"

text \<open>The default, \<open>lambda: {}\<close>, for a type of object states with an empty state.\<close>

definition default_creator :: "'v \<Rightarrow> 'v factory" where
  "default_creator blank h = (Inr (Some (length h)), h @ [blank])"

subsection \<open>The class\<close>

text \<open>The attributes of an instance; \<open>database\<close> is the attribute \<open>_database\<close>.\<close>

record 'v DatabaseInterface =
  save_folder :: str
  database_creator :: "'v factory"
  most_recent_save_file :: str
  exact_most_recent_save_file :: str
  database :: pyref

type_synonym ('v, 'r) outcome = "(exn + 'r) \<times> 'v DatabaseInterface \<times> 'v world"

text \<open>\<open>__init__\<close>.\<close>

definition init :: "str \<Rightarrow> 'v factory \<Rightarrow> str \<Rightarrow> 'v world \<Rightarrow> 'v DatabaseInterface \<times> 'v world" where
  "init folder creator recent w =
     (let w1 = emit (Stat folder) w;
          w2 = (if resolve w1 folder \<in> dirs w1 then w1
                else emit (Print (lit ''Save folder not found! A save folder named '' @ [0x27]
                                   @ folder @ [0x27] @ lit '' was created instead.''))
                       ((emit (MkDir folder) w1)\<lparr>dirs := insert (resolve w1 folder) (dirs w1)\<rparr>))
      in (\<lparr>save_folder = folder, database_creator = creator, most_recent_save_file = recent,
           exact_most_recent_save_file = join folder recent, database = None\<rparr>, w2))"

text \<open>The handler of \<open>load\<close> for \<open>FileNotFoundError\<close>: an empty database is made.\<close>

definition blank_database :: "'v DatabaseInterface \<Rightarrow> 'v world \<Rightarrow> ('v, pyref) outcome" where
  "blank_database self w =
     (let w1 = emit (Print (lit ''Database not loaded - blank database created'')) w in
      case database_creator self (heap w1) of
        (Inl e, h) \<Rightarrow> (Inl e, self, w1\<lparr>heap := h\<rparr>)
      | (Inr r, h) \<Rightarrow> (Inr r, self\<lparr>database := r\<rparr>, w1\<lparr>heap := h\<rparr>))"

text \<open>\<open>load\<close>. The pointer file is opened; a missing file, or a first line that strips to
  the empty string, is a \<open>FileNotFoundError\<close> that the outer handler turns into a blank
  database. A missing file under the name read, or a \<open>FileNotFoundError\<close> while
  unpickling, is turned into a \<open>RuntimeError\<close> by the inner handler; the outer
  handler does not catch that.\<close>

definition load :: "'v pickle \<Rightarrow> 'v DatabaseInterface \<Rightarrow> 'v world \<Rightarrow> ('v, pyref) outcome" where
  "load P self w =
     (let w1 = emit (OpenRead (exact_most_recent_save_file self)) w in
      case file_at w1 (exact_most_recent_save_file self) of
        None \<Rightarrow> blank_database self w1
      | Some line \<Rightarrow>
          let database_file = strip (readline line) in
          if database_file = [] then blank_database self w1
          else
            let w2 = emit (OpenRead database_file) w1 in
            (case file_at w2 database_file of
               None \<Rightarrow> (Inl RuntimeError, self, w2)
             | Some bytes \<Rightarrow>
                 (case pickle_load P bytes (heap w2) of
                    (Inl e, h) \<Rightarrow>
                      (Inl (if e = FileNotFoundError then RuntimeError else e), self, w2\<lparr>heap := h\<rparr>)
                  | (Inr r, h) \<Rightarrow>
                      (Inr r, self\<lparr>database := r\<rparr>,
                       emit (Print (lit ''Loaded database from '' @ database_file))
                         (w2\<lparr>heap := h\<rparr>)))))"

text \<open>\<open>expose\<close>.\<close>

definition expose :: "'v DatabaseInterface \<Rightarrow> 'v world \<Rightarrow> ('v, pyref) outcome" where
  "expose self w =
     (if database self = None then (Inl NoDatabaseError, self, w)
      else (Inr (database self), self, w))"

text \<open>\<open>expose_or_load\<close>.\<close>

definition expose_or_load :: "'v pickle \<Rightarrow> 'v DatabaseInterface \<Rightarrow> 'v world \<Rightarrow> ('v, pyref) outcome" where
  "expose_or_load P self w =
     (case expose self w of
        (Inl e, self1, w1) \<Rightarrow>
          if e = NoDatabaseError then load P self1 w1 else (Inl e, self1, w1)
      | (Inr r, self1, w1) \<Rightarrow> (Inr r, self1, w1))"

text \<open>\<open>save\<close>. \<open>now\<close> is what \<open>datetime.datetime.now().strftime(...)\<close> returns when
  the method runs, or \<open>None\<close> when it raises an \<open>Exception\<close>.\<close>

definition record_name :: "str \<Rightarrow> str" where
  "record_name formatted_date_and_time = lit ''db_sv_'' @ formatted_date_and_time @ lit ''.pkl''"

definition save_file :: "'v DatabaseInterface \<Rightarrow> str \<Rightarrow> str" where
  "save_file self formatted_date_and_time =
     normpath (join (save_folder self) (record_name formatted_date_and_time))"

definition formatted :: "str option \<Rightarrow> str" where
  "formatted now = (case now of Some t \<Rightarrow> t | None \<Rightarrow> lit ''UnknownTime'')"

text \<open>The fallback of \<open>save\<close> when formatting the time raises: a notice is printed and
  the name is built from \<open>UnknownTime\<close>.\<close>

definition clock_notice :: "str option \<Rightarrow> 'v world \<Rightarrow> 'v world" where
  "clock_notice now w =
     (case now of
        Some t \<Rightarrow> w
      | None \<Rightarrow> emit (Print (lit ''Failed to obtain formatted date and time!'')) w)"

definition save :: "'v pickle \<Rightarrow> str option \<Rightarrow> pyref \<Rightarrow> 'v DatabaseInterface \<Rightarrow> 'v world \<Rightarrow> ('v, unit) outcome" where
  "save P now db self w =
     (let self1 = (if db \<noteq> None then self\<lparr>database := db\<rparr> else self) in
      case database self1 of
        None \<Rightarrow> (Inl NoDatabaseError, self1, w)
      | Some a \<Rightarrow>
          let w1 = clock_notice now w;
              f = save_file self1 (formatted now)
          in (case pickle_dump P (heap w1 ! a) of
                Inl (e, written) \<Rightarrow> (Inl e, self1, write_file f written w1)
              | Inr bytes \<Rightarrow>
                  (Inr (), self1,
                   emit (Print (lit ''Database saved at: '' @ f))
                     (write_file (exact_most_recent_save_file self1) f
                        (write_file f bytes w1)))))"

subsection \<open>The context managers\<close>

text \<open>The body of a \<open>with\<close> block is any code: it gets the value yielded, may change
  the object and the world, and ends normally or by raising. \<open>now\<close> is the reading of
  the clock by the \<open>save\<close> on exit.\<close>

type_synonym 'v body = "pyref \<Rightarrow> 'v DatabaseInterface \<Rightarrow> 'v world \<Rightarrow> ('v, unit) outcome"

text \<open>A \<open>finally: self.save()\<close> clause entered with the pending result \<open>r\<close>: an
  exception raised by \<open>save\<close> replaces it.\<close>

definition finally_save :: "'v pickle \<Rightarrow> str option \<Rightarrow> exn + unit \<Rightarrow> 'v DatabaseInterface \<Rightarrow> 'v world \<Rightarrow> ('v, unit) outcome" where
  "finally_save P now r self w =
     (case save P now None self w of
        (Inl e, self1, w1) \<Rightarrow> (Inl e, self1, w1)
      | (Inr u, self1, w1) \<Rightarrow> (r, self1, w1))"

text \<open>\<open>load_then_save\<close>: \<open>except Exception: raise\<close> raises again what it caught.\<close>

definition load_then_save :: "'v pickle \<Rightarrow> str option \<Rightarrow> 'v body \<Rightarrow> 'v DatabaseInterface \<Rightarrow> 'v world \<Rightarrow> ('v, unit) outcome" where
  "load_then_save P now body self w =
     (let (r, self2, w2) =
            (case load P self w of
               (Inl e, self1, w1) \<Rightarrow> (Inl e, self1, w1)
             | (Inr v, self1, w1) \<Rightarrow> body (database self1) self1 w1);
          r' = (case r of
                  Inl e \<Rightarrow> (if is_Exception e then Inl e else Inl e)
                | Inr u \<Rightarrow> Inr u)
      in finally_save P now r' self2 w2)"

text \<open>\<open>expose_or_load_then_save\<close>: \<open>database_exists\<close> becomes false only when
  \<open>expose_or_load\<close> raises \<open>NoDatabaseError\<close>.\<close>

definition expose_or_load_then_save :: "'v pickle \<Rightarrow> str option \<Rightarrow> 'v body \<Rightarrow> 'v DatabaseInterface \<Rightarrow> 'v world \<Rightarrow> ('v, unit) outcome" where
  "expose_or_load_then_save P now body self w =
     (let (database_exists, r, self2, w2) =
            (case expose_or_load P self w of
               (Inl e, self1, w1) \<Rightarrow> (e \<noteq> NoDatabaseError, Inl e, self1, w1)
             | (Inr v, self1, w1) \<Rightarrow>
                 (case body (database self1) self1 w1 of (r, self2, w2) \<Rightarrow> (True, r, self2, w2)))
      in if database_exists then finally_save P now r self2 w2 else (r, self2, w2))"

subsection \<open>Observations\<close>

text \<open>The number of files opened for reading in a trace.\<close>

fun reads :: "event list \<Rightarrow> nat" where
  "reads [] = 0"
| "reads (OpenRead p # es) = Suc (reads es)"
| "reads (e # es) = reads es"

text \<open>A caller that calls \<open>save\<close> a number of times in a row, each call with its own
  reading of the clock and its own argument, stopping at the first that raises.\<close>

fun saves :: "'v pickle \<Rightarrow> (str option \<times> pyref) list \<Rightarrow> 'v DatabaseInterface \<Rightarrow> 'v world \<Rightarrow> ('v, unit) outcome" where
  "saves P [] self w = (Inr (), self, w)"
| "saves P ((now, db) # calls) self w =
     (case save P now db self w of
        (Inl e, self1, w1) \<Rightarrow> (Inl e, self1, w1)
      | (Inr u, self1, w1) \<Rightarrow> saves P calls self1 w1)"

text \<open>A caller that makes a new \<open>DatabaseInterface\<close> for the folder and the pointer
  file name of \<open>self\<close>, with a factory of its own, and calls \<open>load\<close> on it.\<close>

definition reload :: "'v pickle \<Rightarrow> 'v factory \<Rightarrow> 'v DatabaseInterface \<Rightarrow> 'v world \<Rightarrow> ('v, pyref) outcome" where
  "reload P creator self w =
     (case init (save_folder self) creator (most_recent_save_file self) w of
        (self2, w2) \<Rightarrow> load P self2 w2)"

text \<open>A stand-in for \<open>pickle\<close> on objects whose state is a text (a dictionary as it
  prints). The pickle is the byte \<open>80\<close>, which opens every pickle of protocol 2 and
  later, followed by the text; unpickling makes a new object, and refuses bytes that do
  not begin with that mark.\<close>

definition string_pickle :: "str pickle" where
  "string_pickle =
     \<lparr>pickle_dump = (\<lambda>v. Inr (0x80 # v)),
      pickle_load = (\<lambda>b h. case b of
                        [] \<Rightarrow> (Inl (OtherException ''EOFError''), h)
                      | c # v \<Rightarrow>
                          if c = 0x80 then (Inr (Some (length h)), h @ [v])
                          else (Inl (OtherException ''UnpicklingError''), h))\<rparr>"

text \<open>A world without files, on a file system that tells paths apart as
  \<open>normpath\<close> does.\<close>

definition empty_world :: "'v world" where
  "empty_world = \<lparr>files = Map.empty, resolve = normpath, dirs = {}, heap = [], trace = []\<rparr>"

subsection \<open>Concrete stores and worlds\<close>

text \<open>The inputs on which the theorems below are run: the object of the module's own
  example (folder \<open>database\<close>, the default pointer file name, an empty dictionary from
  the factory), objects whose factory returns \<open>None\<close> or raises, a folder whose name
  begins with a no-break space, a folder \<open>./database\<close> with a pointer file named as a
  save is; worlds with no file, with a pointer file that names a missing file, with a
  blank first line in the pointer file, and with a save on disk; and two bodies of
  \<open>with\<close> blocks, one that does nothing and one that changes the object it is given
  and raises.\<close>

definition example_store :: "str DatabaseInterface" where
  "example_store =
     fst (init (lit ''database'') (default_creator (lit ''{}'')) (lit ''_most_recent_save.txt'') empty_world)"

definition dangling_world :: "str world" where
  "dangling_world =
     empty_world\<lparr>files := [lit ''database/_most_recent_save.txt''
                              \<mapsto> lit ''database/db_sv_09_30_00_Mar_05_2021.pkl'']\<rparr>"

definition blank_pointer_world :: "str world" where
  "blank_pointer_world =
     empty_world\<lparr>files := [lit ''database/_most_recent_save.txt''
                              \<mapsto> [0x20, 0x09, 0xA0, 0x3000, CR, LF]
                                  @ lit ''database/db_sv_09_30_00_Mar_05_2021.pkl'']\<rparr>"

definition none_creator :: "'v factory" where
  "none_creator h = (Inr None, h)"

definition none_store :: "str DatabaseInterface" where
  "none_store = fst (init (lit ''database'') none_creator (lit ''_most_recent_save.txt'') empty_world)"

definition warm_world :: "str world" where
  "warm_world =
     empty_world\<lparr>files := [lit ''database/_most_recent_save.txt''
                              \<mapsto> lit ''database/db_sv_09_30_00_Mar_05_2021.pkl'',
                           lit ''database/db_sv_09_30_00_Mar_05_2021.pkl''
                              \<mapsto> 0x80 # lit ''{wow: haha}'']\<rparr>"

definition raising_creator :: "'v factory" where
  "raising_creator h = (Inl NoDatabaseError, h)"

definition raising_store :: "str DatabaseInterface" where
  "raising_store = fst (init (lit ''database'') raising_creator (lit ''_most_recent_save.txt'') empty_world)"

definition skip_body :: "'v body" where
  "skip_body r self w = (Inr (), self, w)"

definition failing_body :: "str body" where
  "failing_body r self w =
     (case r of
        None \<Rightarrow> (Inl (OtherException ''ValueError''), self, w)
      | Some a \<Rightarrow>
          (Inl (OtherException ''ValueError''), self,
           w\<lparr>heap := (heap w)[a := lit ''{wow: haha, hi: yay}'']\<rparr>))"

definition cold_world :: "str world" where
  "cold_world =
     (emit (Print (lit ''Database not loaded - blank database created''))
        (emit (OpenRead (lit ''database/_most_recent_save.txt'')) empty_world))\<lparr>heap := [lit ''{}'']\<rparr>"

definition two_objects :: "str world" where
  "two_objects = empty_world\<lparr>heap := [lit ''{wow: haha}'', lit ''{hi: yay}'']\<rparr>"

definition dot_store :: "str DatabaseInterface" where
  "dot_store =
     fst (init (lit ''./database'') (default_creator (lit ''{}'')) (lit ''db_sv_09_30_01_Mar_05_2021.pkl'') empty_world)"

definition spaced_store :: "str DatabaseInterface" where
  "spaced_store =
     fst (init (0xA0 # lit ''database'') (default_creator (lit ''{}'')) (lit ''_most_recent_save.txt'') empty_world)"

definition history_calls :: "(str option \<times> pyref) list" where
  "history_calls = [(Some (lit ''09_30_00_Mar_05_2021''), Some 0), (Some (lit ''09_30_01_Mar_05_2021''), None)]"

section \<open>Properties\<close>

subsection \<open>Auxiliary facts\<close>

lemma lit_eq_iff [simp]: "lit s = lit t \<longleftrightarrow> s = t"
proof
  assume "lit s = lit t"
  then have "map (of_char :: char \<Rightarrow> nat) s = map of_char t" by (simp add: lit_def)
  moreover have "inj (of_char :: char \<Rightarrow> nat)" by (rule injI) simp
  ultimately show "s = t" by (simp add: inj_map_eq_map)
qed simp

lemma lit_Nil [simp]: "lit [] = []"
  by (simp add: lit_def)

lemma lit_is_Nil [simp]: "lit s = [] \<longleftrightarrow> s = []"
  by (simp add: lit_def)

lemma strip_all_space:
  assumes "\<forall>c\<in>set s. is_space c"
  shows "strip s = []"
  using assms by (auto simp: strip_def dest: set_dropWhileD)

lemma strip_keeps:
  assumes "s \<noteq> []" "\<not> is_space (hd s)" "\<not> is_space (last s)"
  shows "strip s = s"
proof -
  from assms have a: "dropWhile is_space s = s" by (cases s) simp_all
  from assms have "rev s \<noteq> []" "\<not> is_space (hd (rev s))" by (simp_all add: hd_rev)
  then have "dropWhile is_space (rev s) = rev s" by (cases "rev s") simp_all
  with a show ?thesis by (simp add: strip_def)
qed

lemma readline_keeps: "LF \<notin> set s \<Longrightarrow> CR \<notin> set s \<Longrightarrow> readline s = s"
  by (induction s) auto

lemma pointer_line_keeps:
  assumes "f \<noteq> []" "LF \<notin> set f" "CR \<notin> set f" "\<not> is_space (hd f)" "\<not> is_space (last f)"
  shows "strip (readline f) = f"
  using assms by (simp add: readline_keeps strip_keeps)

lemma files_emit [simp]: "files (emit e w) = files w"
  by (simp add: emit_def)

lemma resolve_emit [simp]: "resolve (emit e w) = resolve w"
  by (simp add: emit_def)

lemma heap_emit [simp]: "heap (emit e w) = heap w"
  by (simp add: emit_def)

lemma dirs_emit [simp]: "dirs (emit e w) = dirs w"
  by (simp add: emit_def)

lemma trace_emit [simp]: "trace (emit e w) = trace w @ [e]"
  by (simp add: emit_def)

lemma file_at_emit [simp]: "file_at (emit e w) p = file_at w p"
  by (simp add: file_at_def)

lemma file_at_heap [simp]: "file_at (w\<lparr>heap := h\<rparr>) p = file_at w p"
  by (simp add: file_at_def)

lemma resolve_write_file [simp]: "resolve (write_file p c w) = resolve w"
  by (simp add: write_file_def)

lemma heap_write_file [simp]: "heap (write_file p c w) = heap w"
  by (simp add: write_file_def)

lemma files_write_file: "files (write_file p c w) = (files w)(resolve w p \<mapsto> c)"
  by (simp add: write_file_def)

lemma file_at_write_file:
  "file_at (write_file p c w) q = (if resolve w q = resolve w p then Some c else file_at w q)"
  by (simp add: write_file_def file_at_def)

lemma files_clock_notice [simp]: "files (clock_notice now w) = files w"
  by (simp add: clock_notice_def split: option.splits)

lemma resolve_clock_notice [simp]: "resolve (clock_notice now w) = resolve w"
  by (simp add: clock_notice_def split: option.splits)

lemma heap_clock_notice [simp]: "heap (clock_notice now w) = heap w"
  by (simp add: clock_notice_def split: option.splits)

lemma file_at_clock_notice [simp]: "file_at (clock_notice now w) p = file_at w p"
  by (simp add: file_at_def)

lemma files_blank_database: "files (snd (snd (blank_database self w))) = files w"
  by (simp add: blank_database_def Let_def split: prod.splits sum.splits)

lemma resolve_blank_database: "resolve (snd (snd (blank_database self w))) = resolve w"
  by (simp add: blank_database_def Let_def split: prod.splits sum.splits)

lemma files_load: "files (snd (snd (load P self w))) = files w"
  by (simp add: load_def Let_def files_blank_database split: option.splits sum.splits prod.splits)

lemma resolve_load: "resolve (snd (snd (load P self w))) = resolve w"
  by (simp add: load_def Let_def resolve_blank_database split: option.splits sum.splits prod.splits)

lemma load_blank:
  assumes "file_at w (exact_most_recent_save_file self) = None
           \<or> (\<exists>line. file_at w (exact_most_recent_save_file self) = Some line
                 \<and> (\<forall>c\<in>set (readline line). is_space c))"
    and "database_creator self (heap w) = (Inr r, h)"
  shows "load P self w
           = (Inr r, self\<lparr>database := r\<rparr>,
              (emit (Print (lit ''Database not loaded - blank database created''))
                 (emit (OpenRead (exact_most_recent_save_file self)) w))\<lparr>heap := h\<rparr>)"
  using assms by (auto simp: load_def Let_def blank_database_def strip_all_space)

lemma load_result_database:
  "load P self w = (Inr r, self', w') \<Longrightarrow> database self' = r"
  by (auto simp: load_def Let_def blank_database_def split: option.splits sum.splits prod.splits if_splits)

lemma load_record:
  assumes "file_at w (exact_most_recent_save_file self) = Some line"
    and "strip (readline line) = p" and "p \<noteq> []"
    and "file_at w p = Some bytes" and "pickle_load P bytes (heap w) = (Inr r, h)"
  shows "load P self w
           = (Inr r, self\<lparr>database := r\<rparr>,
              emit (Print (lit ''Loaded database from '' @ p))
                ((emit (OpenRead p) (emit (OpenRead (exact_most_recent_save_file self)) w))
                   \<lparr>heap := h\<rparr>))"
  using assms by (simp add: load_def Let_def)

lemma load_missing_record:
  assumes "file_at w (exact_most_recent_save_file self) = Some line"
    and "strip (readline line) = p" and "p \<noteq> []" and "file_at w p = None"
  shows "fst (load P self w) = Inl RuntimeError"
  using assms by (simp add: load_def Let_def)

lemma load_unpickle_error:
  assumes "file_at w (exact_most_recent_save_file self) = Some line"
    and "strip (readline line) = p" and "p \<noteq> []"
    and "file_at w p = Some bytes" and "pickle_load P bytes (heap w) = (Inl e, h)"
  shows "fst (load P self w) = Inl (if e = FileNotFoundError then RuntimeError else e)"
  using assms by (simp add: load_def Let_def)

lemma load_NoDatabaseError:
  assumes "fst (load P self w) = Inl NoDatabaseError"
  shows "fst (database_creator self (heap w)) = Inl NoDatabaseError
         \<or> (\<exists>bytes. fst (pickle_load P bytes (heap w)) = Inl NoDatabaseError)"
  using assms
  by (auto simp: load_def Let_def blank_database_def
           split: option.splits sum.splits prod.splits if_splits)
     (metis fst_conv)

lemma reads_append: "reads (xs @ ys) = reads xs + reads ys"
  by (induction xs rule: reads.induct) simp_all

lemma trace_blank_database:
  "\<exists>evs. trace (snd (snd (blank_database self w))) = trace w @ evs \<and> reads evs = 0"
  by (auto simp: blank_database_def Let_def split: prod.splits sum.splits)

lemma trace_load:
  "\<exists>evs. trace (snd (snd (load P self w))) = trace w @ evs \<and> reads evs \<le> 2"
  using trace_blank_database [of self "emit (OpenRead (exact_most_recent_save_file self)) w"]
  by (auto simp: load_def Let_def reads_append split: option.splits sum.splits prod.splits)

lemma files_expose_or_load: "files (snd (snd (expose_or_load P self w))) = files w"
  by (simp add: expose_or_load_def expose_def files_load)

lemma load_then_save_unfold:
  "load_then_save P now body self w =
     (case load P self w of
        (Inl e, self1, w1) \<Rightarrow> finally_save P now (Inl e) self1 w1
      | (Inr v, self1, w1) \<Rightarrow>
          (case body (database self1) self1 w1 of
             (r, self2, w2) \<Rightarrow> finally_save P now r self2 w2))"
  by (simp add: load_then_save_def Let_def split: prod.splits sum.splits)

lemma expose_or_load_then_save_unfold:
  "expose_or_load_then_save P now body self w =
     (case expose_or_load P self w of
        (Inl e, self1, w1) \<Rightarrow>
          if e = NoDatabaseError then (Inl e, self1, w1) else finally_save P now (Inl e) self1 w1
      | (Inr v, self1, w1) \<Rightarrow>
          (case body (database self1) self1 w1 of
             (r, self2, w2) \<Rightarrow> finally_save P now r self2 w2))"
  by (simp add: expose_or_load_then_save_def Let_def split: prod.splits sum.splits)

lemma save_file_update: "save_file (self\<lparr>database := d\<rparr>) t = save_file self t"
  by (simp add: save_file_def)

lemma save_resident:
  assumes "database self = Some a" and "pickle_dump P (heap w ! a) = Inr bytes"
  shows "save P now None self w
           = (Inr (), self,
              emit (Print (lit ''Database saved at: '' @ save_file self (formatted now)))
                (write_file (exact_most_recent_save_file self) (save_file self (formatted now))
                   (write_file (save_file self (formatted now)) bytes (clock_notice now w))))"
  using assms by (simp add: save_def Let_def)

lemma save_given:
  assumes "pickle_dump P (heap w ! a) = Inr bytes"
  shows "save P now (Some a) self w
           = (Inr (), self\<lparr>database := Some a\<rparr>,
              emit (Print (lit ''Database saved at: '' @ save_file self (formatted now)))
                (write_file (exact_most_recent_save_file self) (save_file self (formatted now))
                   (write_file (save_file self (formatted now)) bytes (clock_notice now w))))"
  using assms by (simp add: save_def Let_def save_file_update)

lemma split_sep_nonempty: "split_sep s \<noteq> []"
  by (induction s) (auto split: list.splits)

lemma split_sep_append: "split_sep (a @ sep # n) = split_sep a @ split_sep n"
proof (induction a)
  case Nil
  then show ?case by simp
next
  case (Cons c a)
  obtain x xs where "split_sep a = x # xs"
    using split_sep_nonempty [of a] by (cases "split_sep a") auto
  with Cons show ?case by simp
qed

lemma split_sep_plain: "sep \<notin> set n \<Longrightarrow> split_sep n = [n]"
  by (induction n) auto

lemma norm_step_plain:
  "n \<noteq> [] \<Longrightarrow> n \<noteq> [dot] \<Longrightarrow> n \<noteq> [dot, dot] \<Longrightarrow> norm_step k cs n = cs @ [n]"
  by (simp add: norm_step_def)

lemma join_sep_snoc: "join_sep (cs @ [n]) = (if cs = [] then n else join_sep cs @ sep # n)"
  by (induction cs rule: join_sep.induct) simp_all

lemma initial_slashes_dir:
  assumes "n1 \<noteq> []" "hd n1 \<noteq> sep" "n2 \<noteq> []" "hd n2 \<noteq> sep"
  shows "initial_slashes (x @ sep # n1) = initial_slashes (x @ sep # n2)"
proof (cases x)
  case Nil
  with assms show ?thesis by (cases n1; cases n2) (simp_all add: initial_slashes_def)
next
  case (Cons c y)
  show ?thesis
  proof (cases y)
    case Nil
    with Cons assms show ?thesis by (cases n1; cases n2) (simp_all add: initial_slashes_def)
  next
    case (Cons d z)
    with \<open>x = c # y\<close> show ?thesis by (cases z) (simp_all add: initial_slashes_def)
  qed
qed

lemma record_name_plain:
  "sep \<notin> set t \<Longrightarrow> sep \<notin> set (record_name t)"
  "record_name t \<noteq> []" "record_name t \<noteq> [dot]" "record_name t \<noteq> [dot, dot]"
  "hd (record_name t) \<noteq> sep" "last (record_name t) = 0x6C"
  by (simp_all add: record_name_def sep_def dot_def lit_def)

lemma normpath_dir_name:
  assumes "sep \<notin> set n" "n \<noteq> []" "n \<noteq> [dot]" "n \<noteq> [dot, dot]"
  shows "normpath (x @ sep # n)
           = replicate (initial_slashes (x @ sep # n)) sep
             @ (if foldl (norm_step (initial_slashes (x @ sep # n))) [] (split_sep x) = [] then []
                else join_sep (foldl (norm_step (initial_slashes (x @ sep # n))) [] (split_sep x)) @ [sep])
             @ n"
  using assms
  by (simp add: normpath_def Let_def split_sep_append split_sep_plain norm_step_plain join_sep_snoc)

lemma normpath_name:
  assumes "sep \<notin> set n" "n \<noteq> []" "n \<noteq> [dot]" "n \<noteq> [dot, dot]"
  shows "normpath n = n"
proof -
  from assms have "take 1 n \<noteq> [sep]" by (cases n) auto
  then have "initial_slashes n = 0" by (simp add: initial_slashes_def)
  with assms show ?thesis
    by (simp add: normpath_def Let_def split_sep_plain norm_step_plain)
qed

lemma join_record_name:
  "join folder (record_name t)
     = (if folder = [] then record_name t
        else (if last folder = sep then butlast folder else folder) @ sep # record_name t)"
proof -
  have "hd (record_name t) \<noteq> sep" "record_name t \<noteq> []"
    by (simp_all add: record_name_plain)
  moreover have "folder \<noteq> [] \<Longrightarrow> last folder = sep \<Longrightarrow> folder = butlast folder @ [sep]"
    by (metis append_butlast_last_id)
  ultimately show ?thesis by (auto simp: join_def)
qed

lemma save_file_shape:
  "\<exists>pre. \<forall>t. sep \<notin> set t \<longrightarrow> save_file self t = pre @ record_name t"
proof (cases "save_folder self = []")
  case True
  then have "\<forall>t. sep \<notin> set t \<longrightarrow> save_file self t = [] @ record_name t"
    by (simp add: save_file_def join_record_name normpath_name record_name_plain)
  then show ?thesis by blast
next
  case False
  define x where "x = (if last (save_folder self) = sep then butlast (save_folder self) else save_folder self)"
  define k where "k = initial_slashes (x @ sep # [0x64])"
  define pre where "pre = replicate k sep
             @ (if foldl (norm_step k) [] (split_sep x) = [] then []
                else join_sep (foldl (norm_step k) [] (split_sep x)) @ [sep])"
  have "save_file self t = pre @ record_name t" if "sep \<notin> set t" for t
  proof -
    have k: "initial_slashes (x @ sep # record_name t) = k"
      unfolding k_def by (rule initial_slashes_dir) (simp_all add: record_name_plain, simp add: sep_def)
    have "save_file self t = normpath (x @ sep # record_name t)"
      using False by (simp add: save_file_def join_record_name x_def)
    also have "\<dots> = pre @ record_name t"
      using that by (simp add: normpath_dir_name record_name_plain k pre_def)
    finally show ?thesis .
  qed
  then show ?thesis by blast
qed

lemma save_file_inj:
  assumes "sep \<notin> set t1" "sep \<notin> set t2" "save_file self t1 = save_file self t2"
  shows "t1 = t2"
proof -
  obtain pre where "\<forall>t. sep \<notin> set t \<longrightarrow> save_file self t = pre @ record_name t"
    using save_file_shape by blast
  with assms have "pre @ record_name t1 = pre @ record_name t2" by metis
  then show ?thesis by (simp add: record_name_def)
qed

lemma save_file_last:
  assumes "sep \<notin> set t"
  shows "save_file self t \<noteq> [] \<and> last (save_file self t) = 0x6C"
proof -
  obtain pre where "\<forall>t. sep \<notin> set t \<longrightarrow> save_file self t = pre @ record_name t"
    using save_file_shape by blast
  with assms have "save_file self t = pre @ record_name t" by blast
  then show ?thesis by (simp add: record_name_plain)
qed

lemma distinct_save_files:
  assumes "distinct (map (\<lambda>c. formatted (fst c)) calls)"
    and "\<forall>c\<in>set calls. sep \<notin> set (formatted (fst c))"
  shows "distinct (map (\<lambda>c. save_file self (formatted (fst c))) calls)"
proof -
  have "inj_on (\<lambda>c. save_file self (formatted (fst c))) (set calls)"
  proof (rule inj_onI)
    fix c d assume cd: "c \<in> set calls" "d \<in> set calls"
      and eq: "save_file self (formatted (fst c)) = save_file self (formatted (fst d))"
    with assms(2) have "formatted (fst c) = formatted (fst d)" by (blast intro: save_file_inj)
    moreover from assms(1) have "inj_on (\<lambda>c. formatted (fst c)) (set calls)"
      by (simp add: distinct_map)
    ultimately show "c = d" using cd by (auto dest: inj_onD)
  qed
  moreover from assms(1) have "distinct calls" by (simp add: distinct_map)
  ultimately show ?thesis by (simp add: distinct_map)
qed

lemma save_keeps_fields:
  "save P now db self w = (r, self1, w1) \<Longrightarrow>
     save_folder self1 = save_folder self
     \<and> exact_most_recent_save_file self1 = exact_most_recent_save_file self
     \<and> resolve w1 = resolve w"
  by (auto simp: save_def Let_def split: option.splits sum.splits prod.splits if_splits)

lemma save_file_folder:
  "save_folder self1 = save_folder self \<Longrightarrow> save_file self1 t = save_file self t"
  by (simp add: save_file_def)

lemma save_ok_files:
  assumes "save P now db self w = (Inr u, self1, w1)"
  shows "\<exists>bytes. files w1 = (files w)(resolve w (save_file self (formatted now)) \<mapsto> bytes,
                     resolve w (exact_most_recent_save_file self) \<mapsto> save_file self (formatted now))"
  using assms
  by (auto simp: save_def Let_def files_write_file save_file_update
           split: option.splits sum.splits prod.splits if_splits)

lemma saves_keeps_fields:
  "saves P calls self w = (r, self1, w1) \<Longrightarrow>
     save_folder self1 = save_folder self
     \<and> exact_most_recent_save_file self1 = exact_most_recent_save_file self
     \<and> resolve w1 = resolve w"
proof (induction calls arbitrary: self w)
  case Nil
  then show ?case by simp
next
  case (Cons c calls)
  obtain now db where c: "c = (now, db)" by (cases c)
  obtain r0 self0 w0 where s: "save P now db self w = (r0, self0, w0)" by (cases "save P now db self w")
  from save_keeps_fields [OF s] Cons c s show ?case
    by (cases r0) auto
qed

lemma saves_append:
  "saves P (xs @ ys) self w =
     (case saves P xs self w of
        (Inl e, self1, w1) \<Rightarrow> (Inl e, self1, w1)
      | (Inr u, self1, w1) \<Rightarrow> saves P ys self1 w1)"
proof (induction xs arbitrary: self w)
  case Nil
  then show ?case by simp
next
  case (Cons c xs)
  obtain now db where c: "c = (now, db)" by (cases c)
  show ?case
    by (simp add: c Cons split: prod.splits sum.splits)
qed

lemma saves_other_files:
  assumes "saves P calls self w = (Inr u, self1, w1)"
    and "i \<noteq> resolve w (exact_most_recent_save_file self)"
    and "i \<notin> (\<lambda>c. resolve w (save_file self (formatted (fst c)))) ` set calls"
  shows "files w1 i = files w i"
  using assms
proof (induction calls arbitrary: self w)
  case Nil
  then show ?case by simp
next
  case (Cons c calls)
  obtain now db where c: "c = (now, db)" by (cases c)
  obtain r0 self0 w0 where s: "save P now db self w = (r0, self0, w0)" by (cases "save P now db self w")
  with Cons.prems(1) c obtain u0 where r0: "r0 = Inr u0" by (cases r0) auto
  with Cons.prems(1) c s have rest: "saves P calls self0 w0 = (Inr u, self1, w1)" by simp
  from save_keeps_fields [OF s] have k: "save_folder self0 = save_folder self"
    "exact_most_recent_save_file self0 = exact_most_recent_save_file self"
    "resolve w0 = resolve w" by simp_all
  from Cons.prems(3) have "i \<notin> (\<lambda>c. resolve w0 (save_file self0 (formatted (fst c)))) ` set calls"
    by (simp add: save_file_folder [OF k(1)] k(3))
  with Cons.IH [OF rest] Cons.prems(2) k have "files w1 i = files w0 i" by simp
  moreover from save_ok_files [OF s [unfolded r0]] Cons.prems(2,3) c have "files w0 i = files w i"
    by auto
  ultimately show ?case by simp
qed

lemma saves_pointer:
  assumes "saves P calls self w = (Inr u, self1, w1)" and "calls \<noteq> []"
  shows "files w1 (resolve w (exact_most_recent_save_file self))
           = Some (save_file self (formatted (fst (last calls))))"
  using assms
proof (induction calls arbitrary: self w)
  case Nil
  then show ?case by simp
next
  case (Cons c calls)
  obtain now db where c: "c = (now, db)" by (cases c)
  obtain r0 self0 w0 where s: "save P now db self w = (r0, self0, w0)" by (cases "save P now db self w")
  with Cons.prems(1) c obtain u0 where r0: "r0 = Inr u0" by (cases r0) auto
  with Cons.prems(1) c s have rest: "saves P calls self0 w0 = (Inr u, self1, w1)" by simp
  from save_keeps_fields [OF s] have k: "save_folder self0 = save_folder self"
    "exact_most_recent_save_file self0 = exact_most_recent_save_file self"
    "resolve w0 = resolve w" by simp_all
  show ?case
  proof (cases "calls = []")
    case True
    with rest have "w1 = w0" by simp
    with save_ok_files [OF s [unfolded r0]] True c show ?thesis by auto
  next
    case False
    with Cons.IH [OF rest] k show ?thesis by (simp add: save_file_folder [OF k(1)])
  qed
qed

lemma saves_last_record:
  assumes "saves P (xs @ [c]) self w = (Inr u, self1, w1)"
    and "resolve w (save_file self (formatted (fst c))) \<noteq> resolve w (exact_most_recent_save_file self)"
  shows "files w1 (resolve w (save_file self (formatted (fst c)))) \<noteq> None"
proof -
  obtain now db where c: "c = (now, db)" by (cases c)
  from assms(1) obtain u0 self0 w0 where xs: "saves P xs self w = (Inr u0, self0, w0)"
    and s: "save P now db self0 w0 = (Inr u, self1, w1)"
    by (auto simp: saves_append c split: prod.splits sum.splits)
  from saves_keeps_fields [OF xs] have k: "save_folder self0 = save_folder self"
    "exact_most_recent_save_file self0 = exact_most_recent_save_file self"
    "resolve w0 = resolve w" by simp_all
  from save_ok_files [OF s] assms(2) c k show ?thesis
    by (auto simp: save_file_folder [OF k(1)])
qed

lemma join_database_pointer:
  "join (lit ''database'') (lit ''_most_recent_save.txt'') = lit ''database/_most_recent_save.txt''"
  by code_simp

lemma example_store_fields:
  "save_folder example_store = lit ''database''"
  "database_creator example_store = default_creator (lit ''{}'')"
  "most_recent_save_file example_store = lit ''_most_recent_save.txt''"
  "exact_most_recent_save_file example_store = lit ''database/_most_recent_save.txt''"
  "database example_store = None"
  by (simp_all add: example_store_def init_def Let_def join_database_pointer)

lemma none_store_fields:
  "save_folder none_store = lit ''database''"
  "database_creator none_store = none_creator"
  "most_recent_save_file none_store = lit ''_most_recent_save.txt''"
  "exact_most_recent_save_file none_store = lit ''database/_most_recent_save.txt''"
  "database none_store = None"
  by (simp_all add: none_store_def init_def Let_def join_database_pointer)

lemma raising_store_fields:
  "save_folder raising_store = lit ''database''"
  "database_creator raising_store = raising_creator"
  "most_recent_save_file raising_store = lit ''_most_recent_save.txt''"
  "exact_most_recent_save_file raising_store = lit ''database/_most_recent_save.txt''"
  "database raising_store = None"
  by (simp_all add: raising_store_def init_def Let_def join_database_pointer)

lemma normpath_pointer:
  "normpath (lit ''database/_most_recent_save.txt'') = lit ''database/_most_recent_save.txt''"
  by code_simp

lemma normpath_record_0:
  "normpath (lit ''database/db_sv_09_30_00_Mar_05_2021.pkl'') = lit ''database/db_sv_09_30_00_Mar_05_2021.pkl''"
  by code_simp

lemma normpath_record_1:
  "normpath (lit ''database/db_sv_09_30_01_Mar_05_2021.pkl'') = lit ''database/db_sv_09_30_01_Mar_05_2021.pkl''"
  by code_simp

lemma pointer_line_record_0:
  "strip (readline (lit ''database/db_sv_09_30_00_Mar_05_2021.pkl''))
     = lit ''database/db_sv_09_30_00_Mar_05_2021.pkl''"
  by code_simp

lemma pointer_line_record_1:
  "strip (readline (lit ''database/db_sv_09_30_01_Mar_05_2021.pkl''))
     = lit ''database/db_sv_09_30_01_Mar_05_2021.pkl''"
  by code_simp

lemma save_file_database_0:
  "save_folder self = lit ''database'' \<Longrightarrow>
     save_file self (lit ''09_30_00_Mar_05_2021'') = lit ''database/db_sv_09_30_00_Mar_05_2021.pkl''"
  by (simp add: save_file_def record_name_def) code_simp

lemma save_file_database_1:
  "save_folder self = lit ''database'' \<Longrightarrow>
     save_file self (lit ''09_30_01_Mar_05_2021'') = lit ''database/db_sv_09_30_01_Mar_05_2021.pkl''"
  by (simp add: save_file_def record_name_def) code_simp

lemma save_file_example_0:
  "save_file example_store (lit ''09_30_00_Mar_05_2021'') = lit ''database/db_sv_09_30_00_Mar_05_2021.pkl''"
  by (simp add: save_file_database_0 example_store_fields)

lemma save_file_example_1:
  "save_file example_store (lit ''09_30_01_Mar_05_2021'') = lit ''database/db_sv_09_30_01_Mar_05_2021.pkl''"
  by (simp add: save_file_database_1 example_store_fields)

lemma stamp_plain:
  "sep \<notin> set (lit ''09_30_00_Mar_05_2021'')" "sep \<notin> set (lit ''09_30_01_Mar_05_2021'')"
  by code_simp+

lemma file_at_dangling_world:
  "file_at dangling_world (lit ''database/_most_recent_save.txt'')
     = Some (lit ''database/db_sv_09_30_00_Mar_05_2021.pkl'')"
  "file_at dangling_world (lit ''database/db_sv_09_30_00_Mar_05_2021.pkl'') = None"
  by (simp_all add: file_at_def dangling_world_def empty_world_def normpath_pointer normpath_record_0)

lemma file_at_warm_world:
  "file_at warm_world (lit ''database/_most_recent_save.txt'')
     = Some (lit ''database/db_sv_09_30_00_Mar_05_2021.pkl'')"
  "file_at warm_world (lit ''database/db_sv_09_30_00_Mar_05_2021.pkl'')
     = Some (0x80 # lit ''{wow: haha}'')"
  by (simp_all add: file_at_def warm_world_def empty_world_def normpath_pointer normpath_record_0)

lemma file_at_empty_world: "file_at empty_world p = None"
  by (simp add: file_at_def empty_world_def)

lemma load_warm_world:
  "load string_pickle example_store warm_world
     = (Inr (Some 0), example_store\<lparr>database := Some 0\<rparr>,
        emit (Print (lit ''Loaded database from '' @ lit ''database/db_sv_09_30_00_Mar_05_2021.pkl''))
          ((emit (OpenRead (lit ''database/db_sv_09_30_00_Mar_05_2021.pkl''))
             (emit (OpenRead (lit ''database/_most_recent_save.txt'')) warm_world))\<lparr>heap := [lit ''{wow: haha}'']\<rparr>))"
proof -
  have h: "heap warm_world = []" by (simp add: warm_world_def empty_world_def)
  have p: "pickle_load string_pickle (0x80 # lit ''{wow: haha}'') (heap warm_world)
             = (Inr (Some 0), [lit ''{wow: haha}''])"
    by (simp add: string_pickle_def h)
  have "lit ''database/db_sv_09_30_00_Mar_05_2021.pkl'' \<noteq> []" by simp
  from load_record [of warm_world example_store, unfolded example_store_fields,
                    OF file_at_warm_world(1) pointer_line_record_0 this file_at_warm_world(2) p]
  show ?thesis by (simp add: example_store_fields)
qed

lemma load_dangling_world:
  "load string_pickle example_store dangling_world
     = (Inl RuntimeError, example_store,
        emit (OpenRead (lit ''database/db_sv_09_30_00_Mar_05_2021.pkl''))
          (emit (OpenRead (lit ''database/_most_recent_save.txt'')) dangling_world))"
  by (simp add: load_def Let_def example_store_fields file_at_dangling_world pointer_line_record_0)

lemma file_at_dirs [simp]: "file_at (w\<lparr>dirs := d\<rparr>) p = file_at w p"
  by (simp add: file_at_def)

lemma join_spaced_pointer:
  "join (0xA0 # lit ''database'') (lit ''_most_recent_save.txt'') = 0xA0 # lit ''database/_most_recent_save.txt''"
  by code_simp

lemma spaced_store_fields:
  "save_folder spaced_store = 0xA0 # lit ''database''"
  "most_recent_save_file spaced_store = lit ''_most_recent_save.txt''"
  "exact_most_recent_save_file spaced_store = 0xA0 # lit ''database/_most_recent_save.txt''"
  "database spaced_store = None"
  by (simp_all add: spaced_store_def init_def Let_def join_spaced_pointer)

lemma save_file_spaced:
  "save_file spaced_store (lit ''09_30_01_Mar_05_2021'') = 0xA0 # lit ''database/db_sv_09_30_01_Mar_05_2021.pkl''"
  by (simp add: save_file_def record_name_def spaced_store_fields) code_simp

lemma normpath_spaced:
  "normpath (0xA0 # lit ''database/_most_recent_save.txt'') = 0xA0 # lit ''database/_most_recent_save.txt''"
  "normpath (0xA0 # lit ''database/db_sv_09_30_01_Mar_05_2021.pkl'') = 0xA0 # lit ''database/db_sv_09_30_01_Mar_05_2021.pkl''"
  by code_simp+

lemma pointer_line_spaced:
  "strip (readline (0xA0 # lit ''database/db_sv_09_30_01_Mar_05_2021.pkl''))
     = lit ''database/db_sv_09_30_01_Mar_05_2021.pkl''"
  by code_simp

lemma spaced_differs:
  "0xA0 # lit ''database/_most_recent_save.txt'' \<noteq> lit ''database/db_sv_09_30_01_Mar_05_2021.pkl''"
  "0xA0 # lit ''database/db_sv_09_30_01_Mar_05_2021.pkl'' \<noteq> lit ''database/db_sv_09_30_01_Mar_05_2021.pkl''"
  "0xA0 # lit ''database/db_sv_09_30_01_Mar_05_2021.pkl'' \<noteq> 0xA0 # lit ''database/_most_recent_save.txt''"
  by code_simp+

lemma join_dot_pointer:
  "join (lit ''./database'') (lit ''db_sv_09_30_01_Mar_05_2021.pkl'') = lit ''./database/db_sv_09_30_01_Mar_05_2021.pkl''"
  by code_simp

lemma dot_store_fields:
  "save_folder dot_store = lit ''./database''"
  "most_recent_save_file dot_store = lit ''db_sv_09_30_01_Mar_05_2021.pkl''"
  "exact_most_recent_save_file dot_store = lit ''./database/db_sv_09_30_01_Mar_05_2021.pkl''"
  "database dot_store = None"
  by (simp_all add: dot_store_def init_def Let_def join_dot_pointer)

lemma save_file_dot:
  "save_file dot_store (lit ''09_30_01_Mar_05_2021'') = lit ''database/db_sv_09_30_01_Mar_05_2021.pkl''"
  "save_file dot_store (lit ''09_30_00_Mar_05_2021'') = lit ''database/db_sv_09_30_00_Mar_05_2021.pkl''"
  by (simp_all add: save_file_def record_name_def dot_store_fields) code_simp+

lemma normpath_dot_pointer:
  "normpath (lit ''./database/db_sv_09_30_01_Mar_05_2021.pkl'') = lit ''database/db_sv_09_30_01_Mar_05_2021.pkl''"
  by code_simp

lemma resolve_two_objects [simp]: "resolve two_objects = normpath"
  by (simp add: two_objects_def empty_world_def)

lemma files_two_objects [simp]: "files two_objects = Map.empty"
  by (simp add: two_objects_def empty_world_def)

lemma heap_two_objects [simp]: "heap two_objects = [lit ''{wow: haha}'', lit ''{hi: yay}'']"
  by (simp add: two_objects_def)

lemma file_at_two_objects [simp]: "file_at two_objects p = None"
  by (simp add: file_at_def)

lemma pickle_dump_string [simp]: "pickle_dump string_pickle v = Inr (0x80 # v)"
  by (simp add: string_pickle_def)

lemma pickle_load_string:
  "pickle_load string_pickle (0x80 # v) h = (Inr (Some (length h)), h @ [v])"
  "c \<noteq> 0x80 \<Longrightarrow> pickle_load string_pickle (c # v) h = (Inl (OtherException ''UnpicklingError''), h)"
  by (simp_all add: string_pickle_def)

lemma fst_load_cong:
  assumes "files w' = files w" "resolve w' = resolve w" "heap w' = heap w"
  shows "fst (load P self w') = fst (load P self w)"
    and "heap (snd (snd (load P self w'))) = heap (snd (snd (load P self w)))"
    and "database (fst (snd (load P self w'))) = database (fst (snd (load P self w)))"
  using assms
  by (auto simp: load_def Let_def blank_database_def file_at_def
           split: option.splits sum.splits prod.splits)

lemma reload_as_load:
  assumes "exact_most_recent_save_file self = join (save_folder self) (most_recent_save_file self)"
  shows "fst (reload P creator self w)
           = fst (load P (self\<lparr>database_creator := creator, database := None\<rparr>) w)"
    and "heap (snd (snd (reload P creator self w)))
           = heap (snd (snd (load P (self\<lparr>database_creator := creator, database := None\<rparr>) w)))"
    and "database (fst (snd (reload P creator self w)))
           = database (fst (snd (load P (self\<lparr>database_creator := creator, database := None\<rparr>) w)))"
proof -
  obtain self2 w2 where i: "init (save_folder self) creator (most_recent_save_file self) w = (self2, w2)"
    by (cases "init (save_folder self) creator (most_recent_save_file self) w")
  then have s: "self2 = self\<lparr>database_creator := creator, database := None\<rparr>"
    and w: "files w2 = files w" "resolve w2 = resolve w" "heap w2 = heap w"
    using assms by (auto simp: init_def Let_def split: if_splits)
  have r: "reload P creator self w = load P self2 w2" by (simp add: reload_def i)
  show "fst (reload P creator self w)
           = fst (load P (self\<lparr>database_creator := creator, database := None\<rparr>) w)"
    unfolding r s by (rule fst_load_cong) (fact w)+
  show "heap (snd (snd (reload P creator self w)))
           = heap (snd (snd (load P (self\<lparr>database_creator := creator, database := None\<rparr>) w)))"
    unfolding r s by (rule fst_load_cong) (fact w)+
  show "database (fst (snd (reload P creator self w)))
           = database (fst (snd (load P (self\<lparr>database_creator := creator, database := None\<rparr>) w)))"
    unfolding r s by (rule fst_load_cong) (fact w)+
qed

lemma save_string_pickle:
  assumes "db \<noteq> None \<or> database self \<noteq> None"
  shows "fst (save string_pickle now db self w) = Inr ()
         \<and> database (fst (snd (save string_pickle now db self w))) \<noteq> None"
  using assms by (auto simp: save_def Let_def split: option.splits)

lemma saves_history_calls:
  "fst (saves string_pickle history_calls example_store two_objects) = Inr ()"
proof -
  let ?t0 = "Some (lit ''09_30_00_Mar_05_2021'')"
  let ?t1 = "Some (lit ''09_30_01_Mar_05_2021'')"
  obtain r0 s0 w0 where a: "save string_pickle ?t0 (Some 0) example_store two_objects = (r0, s0, w0)"
    by (cases "save string_pickle ?t0 (Some 0) example_store two_objects")
  with save_string_pickle [of "Some 0" example_store ?t0 two_objects]
  have b: "r0 = Inr ()" "database s0 \<noteq> None" by simp_all
  obtain r1 s1 w1 where d: "save string_pickle ?t1 None s0 w0 = (r1, s1, w1)"
    by (cases "save string_pickle ?t1 None s0 w0")
  with save_string_pickle [of None s0 ?t1 w0] b have c: "r1 = Inr ()" by simp
  show ?thesis
    by (simp add: history_calls_def a b(1) d c)
qed

subsection \<open>The claims\<close>

text \<open>
  Claim C8. \<open>expose\<close> returns the reference held in \<open>_database\<close> when there is
  one and raises \<open>NoDatabaseError\<close> when there is none, as on an object that
  \<open>__init__\<close> has just made; in both cases the object and the world, its files and its
  trace included, are left as they were.
\<close>

theorem expose_value_or_NoDatabaseError:
  "fst (expose self w) = (case database self of None \<Rightarrow> Inl NoDatabaseError | Some a \<Rightarrow> Inr (Some a))
   \<and> snd (expose self w) = (self, w)
   \<and> fst (expose (fst (init folder creator recent w0)) w) = Inl NoDatabaseError"
  by (simp add: expose_def init_def Let_def split: option.splits)

theorem expose_value_or_NoDatabaseError_witness:
  "fst (expose (example_store\<lparr>database := Some 0\<rparr>) (empty_world\<lparr>heap := [lit ''{wow: haha}'']\<rparr>))
     = Inr (Some 0)
   \<and> snd (expose (example_store\<lparr>database := Some 0\<rparr>) (empty_world\<lparr>heap := [lit ''{wow: haha}'']\<rparr>))
       = (example_store\<lparr>database := Some 0\<rparr>, empty_world\<lparr>heap := [lit ''{wow: haha}'']\<rparr>)
   \<and> fst (expose example_store (empty_world\<lparr>heap := [lit ''{wow: haha}'']\<rparr>)) = Inl NoDatabaseError"
  using expose_value_or_NoDatabaseError
          [of "example_store\<lparr>database := Some 0\<rparr>" "empty_world\<lparr>heap := [lit ''{wow: haha}'']\<rparr>"
              "lit ''database''" "default_creator (lit ''{}'')" "lit ''_most_recent_save.txt''" empty_world]
  by (simp add: example_store_def)

text \<open>
  Claim C7. \<open>save\<close> called without a value on an object that holds none raises
  \<open>NoDatabaseError\<close> before anything else happens: the object is unchanged and so is
  the world, so no file is created or written.
\<close>

theorem save_nothing_NoDatabaseError:
  "database self = None \<Longrightarrow> save P now None self w = (Inl NoDatabaseError, self, w)"
  by (simp add: save_def)

theorem save_nothing_NoDatabaseError_witness:
  "database example_store = None
   \<and> save string_pickle (Some (lit ''09_30_01_Mar_05_2021'')) None example_store empty_world
       = (Inl NoDatabaseError, example_store, empty_world)"
  using save_nothing_NoDatabaseError
          [of example_store string_pickle "Some (lit ''09_30_01_Mar_05_2021'')" empty_world]
  by (simp add: example_store_fields)

text \<open>
  Claim C3. When the pointer file exists and its first line, stripped, is the name \<open>p\<close> of
  a file that does not exist, \<open>load\<close> raises \<open>RuntimeError\<close> after having tried to
  open both files; the factory is not called and the object keeps what it held. The same
  object, in the same world without the pointer file, gets the factory's value instead.
\<close>

theorem load_corrupt_pointer_RuntimeError:
  assumes "file_at w (exact_most_recent_save_file self) = Some line"
    and "strip (readline line) = p" and "p \<noteq> []" and "file_at w p = None"
  shows "load P self w
           = (Inl RuntimeError, self,
              emit (OpenRead p) (emit (OpenRead (exact_most_recent_save_file self)) w))
         \<and> (\<forall>r h. database_creator self (heap w) = (Inr r, h) \<longrightarrow>
              fst (load P self
                     (w\<lparr>files := (files w)(resolve w (exact_most_recent_save_file self) := None)\<rparr>))
                = Inr r)"
  using assms by (simp add: load_def Let_def blank_database_def file_at_def)

theorem load_corrupt_pointer_RuntimeError_witness:
  "file_at dangling_world (exact_most_recent_save_file example_store)
      = Some (lit ''database/db_sv_09_30_00_Mar_05_2021.pkl'')
   \<and> strip (readline (lit ''database/db_sv_09_30_00_Mar_05_2021.pkl''))
      = lit ''database/db_sv_09_30_00_Mar_05_2021.pkl''
   \<and> lit ''database/db_sv_09_30_00_Mar_05_2021.pkl'' \<noteq> []
   \<and> file_at dangling_world (lit ''database/db_sv_09_30_00_Mar_05_2021.pkl'') = None
   \<and> fst (load string_pickle example_store dangling_world) = Inl RuntimeError
   \<and> fst (load string_pickle example_store
            (dangling_world\<lparr>files := (files dangling_world)
               (resolve dangling_world (exact_most_recent_save_file example_store) := None)\<rparr>))
       = Inr (Some 0)"
proof -
  have 1: "file_at dangling_world (exact_most_recent_save_file example_store)
      = Some (lit ''database/db_sv_09_30_00_Mar_05_2021.pkl'')"
    by (simp add: example_store_fields file_at_dangling_world)
  note 2 = pointer_line_record_0
  have 3: "lit ''database/db_sv_09_30_00_Mar_05_2021.pkl'' \<noteq> []" by simp
  note 4 = file_at_dangling_world(2)
  have 5: "database_creator example_store (heap dangling_world) = (Inr (Some 0), [lit ''{}''])"
    by (simp add: example_store_fields default_creator_def dangling_world_def empty_world_def)
  from load_corrupt_pointer_RuntimeError [OF 1 2 3 4, of string_pickle] 1 2 3 4 5
  show ?thesis by simp
qed

text \<open>
  Claim C4. When the pointer file is missing, or its first line holds nothing but
  whitespace, and the factory returns \<open>r\<close>, \<open>load\<close> raises nothing: it stores
  \<open>r\<close> in \<open>_database\<close> and returns it, having opened the pointer file only.
\<close>

theorem load_cold_start_factory:
  assumes "file_at w (exact_most_recent_save_file self) = None
           \<or> (\<exists>line. file_at w (exact_most_recent_save_file self) = Some line
                 \<and> (\<forall>c\<in>set (readline line). is_space c))"
    and "database_creator self (heap w) = (Inr r, h)"
  shows "load P self w
           = (Inr r, self\<lparr>database := r\<rparr>,
              (emit (Print (lit ''Database not loaded - blank database created''))
                 (emit (OpenRead (exact_most_recent_save_file self)) w))\<lparr>heap := h\<rparr>)"
  using assms by (auto simp: load_def Let_def blank_database_def strip_all_space)

theorem load_cold_start_factory_witness:
  "(file_at blank_pointer_world (exact_most_recent_save_file example_store) = None
     \<or> (\<exists>line. file_at blank_pointer_world (exact_most_recent_save_file example_store) = Some line
           \<and> (\<forall>c\<in>set (readline line). is_space c)))
   \<and> database_creator example_store (heap blank_pointer_world) = (Inr (Some 0), [lit ''{}''])
   \<and> fst (load string_pickle example_store blank_pointer_world) = Inr (Some 0)
   \<and> database (fst (snd (load string_pickle example_store blank_pointer_world))) = Some 0
   \<and> heap (snd (snd (load string_pickle example_store blank_pointer_world))) = [lit ''{}'']"
proof -
  have 1: "file_at blank_pointer_world (exact_most_recent_save_file example_store) = None
     \<or> (\<exists>line. file_at blank_pointer_world (exact_most_recent_save_file example_store) = Some line
           \<and> (\<forall>c\<in>set (readline line). is_space c))"
    by (simp add: file_at_def blank_pointer_world_def empty_world_def example_store_fields
          normpath_pointer LF_def CR_def is_space_def)
  have 2: "database_creator example_store (heap blank_pointer_world) = (Inr (Some 0), [lit ''{}''])"
    by (simp add: example_store_fields default_creator_def blank_pointer_world_def empty_world_def)
  from load_cold_start_factory [OF 1 2, of string_pickle] 1 2
  show ?thesis by simp
qed

text \<open>
  Claim C10. With a factory that returns \<open>None\<close>, \<open>load\<close> on a cold start (pointer
  file missing or blank) returns \<open>None\<close> without raising, and the object holds
  \<open>None\<close> afterwards: \<open>expose\<close> and a \<open>save\<close> without argument both raise
  \<open>NoDatabaseError\<close>, no file has changed, and an object that held nothing before is
  the very object it was before the call.
\<close>

theorem load_None_factory_not_resident:
  assumes "file_at w (exact_most_recent_save_file self) = None
           \<or> (\<exists>line. file_at w (exact_most_recent_save_file self) = Some line
                 \<and> (\<forall>c\<in>set (readline line). is_space c))"
    and "database_creator self (heap w) = (Inr None, h)"
  shows "fst (load P self w) = Inr None
     \<and> database (fst (snd (load P self w))) = None
     \<and> fst (expose (fst (snd (load P self w))) (snd (snd (load P self w)))) = Inl NoDatabaseError
     \<and> fst (save P now None (fst (snd (load P self w))) (snd (snd (load P self w)))) = Inl NoDatabaseError
     \<and> files (snd (snd (load P self w))) = files w
     \<and> (database self = None \<longrightarrow> fst (snd (load P self w)) = self)"
proof -
  have "load P self w
           = (Inr None, self\<lparr>database := None\<rparr>,
              (emit (Print (lit ''Database not loaded - blank database created''))
                 (emit (OpenRead (exact_most_recent_save_file self)) w))\<lparr>heap := h\<rparr>)"
    using assms by (rule load_blank)
  then show ?thesis by (auto simp: expose_def save_def)
qed

theorem load_None_factory_not_resident_witness:
  "(file_at (empty_world :: str world) (exact_most_recent_save_file none_store) = None
     \<or> (\<exists>line. file_at (empty_world :: str world) (exact_most_recent_save_file none_store) = Some line
           \<and> (\<forall>c\<in>set (readline line). is_space c)))
   \<and> database_creator none_store (heap (empty_world :: str world)) = (Inr None, [])
   \<and> fst (load string_pickle none_store empty_world) = Inr None
   \<and> fst (expose (fst (snd (load string_pickle none_store empty_world)))
             (snd (snd (load string_pickle none_store empty_world)))) = Inl NoDatabaseError
   \<and> fst (save string_pickle (Some (lit ''09_30_00_Mar_05_2021'')) None
             (fst (snd (load string_pickle none_store empty_world)))
             (snd (snd (load string_pickle none_store empty_world)))) = Inl NoDatabaseError
   \<and> fst (snd (load string_pickle none_store empty_world)) = none_store"
proof -
  have 1: "file_at (empty_world :: str world) (exact_most_recent_save_file none_store) = None
     \<or> (\<exists>line. file_at (empty_world :: str world) (exact_most_recent_save_file none_store) = Some line
           \<and> (\<forall>c\<in>set (readline line). is_space c))"
    by (simp add: file_at_empty_world)
  have 2: "database_creator none_store (heap (empty_world :: str world)) = (Inr None, [])"
    by (simp add: none_store_fields none_creator_def empty_world_def)
  have 3: "database none_store = None" by (simp add: none_store_fields)
  from load_None_factory_not_resident [OF 1 2, of string_pickle "Some (lit ''09_30_00_Mar_05_2021'')"] 1 2 3
  show ?thesis by blast
qed

text \<open>
  Claim C9, as the code has it. \<open>expose_or_load\<close> is \<open>expose\<close> when a value is held:
  it returns the same reference and leaves object and world, trace included, as they were;
  so it does after a \<open>load\<close> that returned an object, however often it is called. When
  nothing is held it is \<open>load\<close>. One call only adds to the trace, opens at most two
  files for reading (the pointer file and the file it names) and writes no file.
\<close>

theorem expose_or_load_resident_or_load:
  "(database self = Some a \<longrightarrow>
      expose_or_load P self w = expose self w \<and> expose_or_load P self w = (Inr (Some a), self, w))
   \<and> (database self = None \<longrightarrow> expose_or_load P self w = load P self w)
   \<and> (load P self w = (Inr (Some a), self1, w1) \<longrightarrow>
        expose_or_load P self1 w1 = (Inr (Some a), self1, w1))
   \<and> take (length (trace w)) (trace (snd (snd (expose_or_load P self w)))) = trace w
   \<and> reads (drop (length (trace w)) (trace (snd (snd (expose_or_load P self w))))) \<le> 2
   \<and> files (snd (snd (expose_or_load P self w))) = files w"
proof -
  have a: "database self = Some a \<longrightarrow>
      expose_or_load P self w = expose self w \<and> expose_or_load P self w = (Inr (Some a), self, w)"
    by (simp add: expose_or_load_def expose_def)
  have b: "database self = None \<longrightarrow> expose_or_load P self w = load P self w"
    by (simp add: expose_or_load_def expose_def)
  have c: "load P self w = (Inr (Some a), self1, w1) \<longrightarrow>
        expose_or_load P self1 w1 = (Inr (Some a), self1, w1)"
    by (auto simp: expose_or_load_def expose_def dest: load_result_database)
  obtain evs where e: "trace (snd (snd (load P self w))) = trace w @ evs" "reads evs \<le> 2"
    using trace_load by blast
  have d: "take (length (trace w)) (trace (snd (snd (expose_or_load P self w)))) = trace w
   \<and> reads (drop (length (trace w)) (trace (snd (snd (expose_or_load P self w))))) \<le> 2
   \<and> files (snd (snd (expose_or_load P self w))) = files w"
  proof (cases "database self")
    case None
    with b e show ?thesis by (simp add: files_load)
  next
    case (Some x)
    then show ?thesis by (simp add: expose_or_load_def expose_def)
  qed
  from a b c d show ?thesis by blast
qed

text \<open>
  One file read per call is too few: with a pointer file that names an existing save,
  \<open>expose_or_load\<close> on an object that holds nothing opens two files.
\<close>

theorem expose_or_load_two_reads:
  "\<not> reads (drop (length (trace warm_world))
        (trace (snd (snd (expose_or_load string_pickle example_store warm_world))))) \<le> 1"
proof -
  have "expose_or_load string_pickle example_store warm_world = load string_pickle example_store warm_world"
    by (simp add: expose_or_load_def expose_def example_store_fields)
  then show ?thesis
    unfolding load_warm_world by (simp add: warm_world_def empty_world_def)
qed

theorem expose_or_load_resident_or_load_witness:
  "database example_store = None
   \<and> expose_or_load string_pickle example_store warm_world = load string_pickle example_store warm_world
   \<and> load string_pickle example_store warm_world
        = (Inr (Some 0), fst (snd (load string_pickle example_store warm_world)),
           snd (snd (load string_pickle example_store warm_world)))
   \<and> expose_or_load string_pickle (fst (snd (load string_pickle example_store warm_world)))
          (snd (snd (load string_pickle example_store warm_world)))
        = (Inr (Some 0), fst (snd (load string_pickle example_store warm_world)),
           snd (snd (load string_pickle example_store warm_world)))
   \<and> reads (drop (length (trace warm_world))
         (trace (snd (snd (expose_or_load string_pickle example_store warm_world))))) \<le> 2
   \<and> database (example_store\<lparr>database := Some 0\<rparr>) = Some 0
   \<and> expose_or_load string_pickle (example_store\<lparr>database := Some 0\<rparr>) warm_world
        = (Inr (Some 0), example_store\<lparr>database := Some 0\<rparr>, warm_world)"
proof -
  have 1: "database example_store = None" by (simp add: example_store_fields)
  have 2: "load string_pickle example_store warm_world
        = (Inr (Some 0), fst (snd (load string_pickle example_store warm_world)),
           snd (snd (load string_pickle example_store warm_world)))"
    by (simp add: load_warm_world)
  have 3: "database (example_store\<lparr>database := Some 0\<rparr>) = Some 0" by simp
  from expose_or_load_resident_or_load [of example_store 0 string_pickle warm_world
       "fst (snd (load string_pickle example_store warm_world))"
       "snd (snd (load string_pickle example_store warm_world))"]
     expose_or_load_resident_or_load [of "example_store\<lparr>database := Some 0\<rparr>" 0 string_pickle warm_world]
     1 2 3
  show ?thesis by blast
qed

text \<open>
  Claim C6. In \<open>load_then_save\<close>, when \<open>load\<close> returns the object at \<open>a\<close>, the
  body changes objects (the heap becomes \<open>h\<close>, in which \<open>a\<close> is live and can be
  pickled) and raises \<open>e\<close>, the \<open>finally\<close> clause saves: the pickle of the changed
  object is written to the file named after the time of the exit, then the pointer file
  is set to that name, and \<open>e\<close> is what the caller gets. The pointer file names the new
  save, and the save holds the changed object unless it is the pointer file itself.
  Whatever the body does, and however it ends, the exit calls \<open>save\<close>, whose
  exception, if any, replaces the result of the body.
\<close>

theorem load_then_save_saves_despite_error:
  assumes "load P self w = (Inr (Some a), self1, w1)"
    and "body (Some a) self1 w1 = (Inl e, self1, w1\<lparr>heap := h\<rparr>)"
    and "a < length h"
    and "pickle_dump P (h ! a) = Inr bytes"
  shows "load_then_save P now body self w
           = (Inl e, self1,
              emit (Print (lit ''Database saved at: '' @ save_file self1 (formatted now)))
                (write_file (exact_most_recent_save_file self1) (save_file self1 (formatted now))
                   (write_file (save_file self1 (formatted now)) bytes
                      (clock_notice now (w1\<lparr>heap := h\<rparr>)))))
         \<and> file_at (snd (snd (load_then_save P now body self w))) (exact_most_recent_save_file self1)
             = Some (save_file self1 (formatted now))
         \<and> (resolve w1 (save_file self1 (formatted now))
               \<noteq> resolve w1 (exact_most_recent_save_file self1) \<longrightarrow>
             file_at (snd (snd (load_then_save P now body self w))) (save_file self1 (formatted now))
               = Some bytes)
         \<and> (\<forall>body'. load_then_save P now body' self w
               = (case body' (Some a) self1 w1 of
                    (r, self2, w2) \<Rightarrow>
                      (case save P now None self2 w2 of
                         (Inl e', self3, w3) \<Rightarrow> (Inl e', self3, w3)
                       | (Inr u, self3, w3) \<Rightarrow> (r, self3, w3))))"
proof -
  from assms(1) have d: "database self1 = Some a" by (rule load_result_database)
  have g: "\<forall>body'. load_then_save P now body' self w
               = (case body' (Some a) self1 w1 of
                    (r, self2, w2) \<Rightarrow>
                      (case save P now None self2 w2 of
                         (Inl e', self3, w3) \<Rightarrow> (Inl e', self3, w3)
                       | (Inr u, self3, w3) \<Rightarrow> (r, self3, w3)))"
    using assms(1) d by (simp add: load_then_save_unfold finally_save_def split: prod.splits)
  define W where "W = emit (Print (lit ''Database saved at: '' @ save_file self1 (formatted now)))
                (write_file (exact_most_recent_save_file self1) (save_file self1 (formatted now))
                   (write_file (save_file self1 (formatted now)) bytes
                      (clock_notice now (w1\<lparr>heap := h\<rparr>))))"
  have s: "save P now None self1 (w1\<lparr>heap := h\<rparr>) = (Inr (), self1, W)"
    unfolding W_def using d assms(4) by (intro save_resident) simp_all
  have l: "load_then_save P now body self w = (Inl e, self1, W)"
    using assms(1,2) d s by (simp add: load_then_save_unfold finally_save_def)
  have p: "file_at W (exact_most_recent_save_file self1) = Some (save_file self1 (formatted now))"
    by (simp add: W_def file_at_write_file)
  have q: "resolve w1 (save_file self1 (formatted now))
               \<noteq> resolve w1 (exact_most_recent_save_file self1) \<longrightarrow>
             file_at W (save_file self1 (formatted now)) = Some bytes"
    by (simp add: W_def file_at_write_file)
  from l p q g show ?thesis unfolding W_def by simp
qed

theorem load_then_save_saves_despite_error_witness:
  "load string_pickle example_store warm_world
     = (Inr (Some 0), fst (snd (load string_pickle example_store warm_world)),
        snd (snd (load string_pickle example_store warm_world)))
   \<and> failing_body (Some 0) (fst (snd (load string_pickle example_store warm_world)))
       (snd (snd (load string_pickle example_store warm_world)))
     = (Inl (OtherException ''ValueError''), fst (snd (load string_pickle example_store warm_world)),
        (snd (snd (load string_pickle example_store warm_world)))\<lparr>heap := [lit ''{wow: haha, hi: yay}'']\<rparr>)
   \<and> (0::nat) < length [lit ''{wow: haha, hi: yay}'']
   \<and> pickle_dump string_pickle ([lit ''{wow: haha, hi: yay}''] ! 0) = Inr (0x80 # lit ''{wow: haha, hi: yay}'')
   \<and> fst (load_then_save string_pickle (Some (lit ''09_30_01_Mar_05_2021'')) failing_body example_store warm_world)
        = Inl (OtherException ''ValueError'')
   \<and> file_at (snd (snd (load_then_save string_pickle (Some (lit ''09_30_01_Mar_05_2021'')) failing_body
                          example_store warm_world)))
        (lit ''database/_most_recent_save.txt'') = Some (lit ''database/db_sv_09_30_01_Mar_05_2021.pkl'')
   \<and> file_at (snd (snd (load_then_save string_pickle (Some (lit ''09_30_01_Mar_05_2021'')) failing_body
                          example_store warm_world)))
        (lit ''database/db_sv_09_30_01_Mar_05_2021.pkl'') = Some (0x80 # lit ''{wow: haha, hi: yay}'')"
proof -
  let ?s1 = "fst (snd (load string_pickle example_store warm_world))"
  let ?w1 = "snd (snd (load string_pickle example_store warm_world))"
  have 1: "load string_pickle example_store warm_world = (Inr (Some 0), ?s1, ?w1)"
    by (simp add: load_warm_world)
  have 2: "failing_body (Some 0) ?s1 ?w1
     = (Inl (OtherException ''ValueError''), ?s1, ?w1\<lparr>heap := [lit ''{wow: haha, hi: yay}'']\<rparr>)"
    by (simp add: load_warm_world failing_body_def)
  have 3: "(0::nat) < length [lit ''{wow: haha, hi: yay}'']" by simp
  have 4: "pickle_dump string_pickle ([lit ''{wow: haha, hi: yay}''] ! 0) = Inr (0x80 # lit ''{wow: haha, hi: yay}'')"
    by (simp add: string_pickle_def)
  have 5: "?s1 = example_store\<lparr>database := Some 0\<rparr>"
    by (simp add: load_warm_world)
  have 6: "save_file ?s1 (formatted (Some (lit ''09_30_01_Mar_05_2021'')))
             = lit ''database/db_sv_09_30_01_Mar_05_2021.pkl''"
    unfolding 5 by (simp add: formatted_def save_file_update save_file_example_1)
  have 7: "exact_most_recent_save_file ?s1 = lit ''database/_most_recent_save.txt''"
    unfolding 5 by (simp add: example_store_fields)
  have 8: "resolve ?w1 (lit ''database/db_sv_09_30_01_Mar_05_2021.pkl'')
             \<noteq> resolve ?w1 (lit ''database/_most_recent_save.txt'')"
    unfolding resolve_load
    by (simp add: warm_world_def empty_world_def normpath_record_1 normpath_pointer)
  note r = load_then_save_saves_despite_error [of string_pickle example_store warm_world 0 ?s1 ?w1
      failing_body "OtherException ''ValueError''" "[lit ''{wow: haha, hi: yay}'']"
      "0x80 # lit ''{wow: haha, hi: yay}''"
      "Some (lit ''09_30_01_Mar_05_2021'')", OF 1 2 3 4, unfolded 6 7]
  from r have "load_then_save string_pickle (Some (lit ''09_30_01_Mar_05_2021'')) failing_body example_store warm_world
      = (Inl (OtherException ''ValueError''), ?s1,
         emit (Print (lit ''Database saved at: '' @ lit ''database/db_sv_09_30_01_Mar_05_2021.pkl''))
           (write_file (lit ''database/_most_recent_save.txt'') (lit ''database/db_sv_09_30_01_Mar_05_2021.pkl'')
              (write_file (lit ''database/db_sv_09_30_01_Mar_05_2021.pkl'') (0x80 # lit ''{wow: haha, hi: yay}'')
                 (clock_notice (Some (lit ''09_30_01_Mar_05_2021''))
                    (?w1\<lparr>heap := [lit ''{wow: haha, hi: yay}'']\<rparr>)))))"
    by (elim conjE)
  then have a: "fst (load_then_save string_pickle (Some (lit ''09_30_01_Mar_05_2021'')) failing_body example_store warm_world)
        = Inl (OtherException ''ValueError'')" by simp
  from r 8 have b: "file_at (snd (snd (load_then_save string_pickle (Some (lit ''09_30_01_Mar_05_2021'')) failing_body
                          example_store warm_world)))
        (lit ''database/_most_recent_save.txt'') = Some (lit ''database/db_sv_09_30_01_Mar_05_2021.pkl'')" by blast
  from r 8 have c: "file_at (snd (snd (load_then_save string_pickle (Some (lit ''09_30_01_Mar_05_2021'')) failing_body
                          example_store warm_world)))
        (lit ''database/db_sv_09_30_01_Mar_05_2021.pkl'') = Some (0x80 # lit ''{wow: haha, hi: yay}'')" by blast
  from 1 2 3 4 a b c show ?thesis by blast
qed

text \<open>
  Claim C5, as the code has it. An object that holds nothing, with no pointer file, does
  not fail to enter \<open>expose_or_load_then_save\<close>: \<open>load\<close> stores the factory's
  value. Whenever \<open>expose_or_load\<close> returns, the body runs and, however it ends, the
  exit calls \<open>save\<close>, whose exception, if any, replaces the result of the body. When
  \<open>expose_or_load\<close> raises anything but \<open>NoDatabaseError\<close>, the body is not run and
  the exit calls \<open>save\<close> all the same, whose exception, if any, replaces the one
  raised. The save is skipped only when \<open>expose_or_load\<close> raises
  \<open>NoDatabaseError\<close>: that exception goes to the caller at once, the body is not run
  and no file changes; and this happens only when nothing is held and the factory or
  \<open>pickle.load\<close> raises \<open>NoDatabaseError\<close>.
\<close>

theorem expose_or_load_then_save_skips_only_NoDatabaseError:
  "(database self = None \<longrightarrow> file_at w (exact_most_recent_save_file self) = None \<longrightarrow>
      database_creator self (heap w) = (Inr v, h) \<longrightarrow>
        expose_or_load P self w
          = (Inr v, self\<lparr>database := v\<rparr>,
             (emit (Print (lit ''Database not loaded - blank database created''))
                (emit (OpenRead (exact_most_recent_save_file self)) w))\<lparr>heap := h\<rparr>))
   \<and> (expose_or_load P self w = (Inr v, self1, w1) \<longrightarrow>
        body (database self1) self1 w1 = (r, self2, w2) \<longrightarrow>
          expose_or_load_then_save P now body self w
            = (case save P now None self2 w2 of
                 (Inl e', self3, w3) \<Rightarrow> (Inl e', self3, w3)
               | (Inr u, self3, w3) \<Rightarrow> (r, self3, w3)))
   \<and> (expose_or_load P self w = (Inl e, self1, w1) \<longrightarrow> e \<noteq> NoDatabaseError \<longrightarrow>
          expose_or_load_then_save P now body self w
            = (case save P now None self1 w1 of
                 (Inl e', self3, w3) \<Rightarrow> (Inl e', self3, w3)
               | (Inr u, self3, w3) \<Rightarrow> (Inl e, self3, w3)))
   \<and> (fst (expose_or_load P self w) = Inl NoDatabaseError \<longrightarrow>
        expose_or_load_then_save P now body self w
          = (Inl NoDatabaseError, snd (expose_or_load P self w))
        \<and> files (snd (snd (expose_or_load_then_save P now body self w))) = files w
        \<and> database self = None
        \<and> (fst (database_creator self (heap w)) = Inl NoDatabaseError
            \<or> (\<exists>bytes. fst (pickle_load P bytes (heap w)) = Inl NoDatabaseError)))"
proof -
  have a: "database self = None \<longrightarrow> file_at w (exact_most_recent_save_file self) = None \<longrightarrow>
      database_creator self (heap w) = (Inr v, h) \<longrightarrow>
        expose_or_load P self w
          = (Inr v, self\<lparr>database := v\<rparr>,
             (emit (Print (lit ''Database not loaded - blank database created''))
                (emit (OpenRead (exact_most_recent_save_file self)) w))\<lparr>heap := h\<rparr>)"
    by (simp add: expose_or_load_def expose_def load_blank)
  have b: "expose_or_load P self w = (Inr v, self1, w1) \<longrightarrow>
        body (database self1) self1 w1 = (r, self2, w2) \<longrightarrow>
          expose_or_load_then_save P now body self w
            = (case save P now None self2 w2 of
                 (Inl e', self3, w3) \<Rightarrow> (Inl e', self3, w3)
               | (Inr u, self3, w3) \<Rightarrow> (r, self3, w3))"
    by (simp add: expose_or_load_then_save_unfold finally_save_def)
  have b': "expose_or_load P self w = (Inl e, self1, w1) \<longrightarrow> e \<noteq> NoDatabaseError \<longrightarrow>
          expose_or_load_then_save P now body self w
            = (case save P now None self1 w1 of
                 (Inl e', self3, w3) \<Rightarrow> (Inl e', self3, w3)
               | (Inr u, self3, w3) \<Rightarrow> (Inl e, self3, w3))"
    by (simp add: expose_or_load_then_save_unfold finally_save_def)
  have c: "fst (expose_or_load P self w) = Inl NoDatabaseError \<longrightarrow>
        expose_or_load_then_save P now body self w
          = (Inl NoDatabaseError, snd (expose_or_load P self w))"
    by (cases "expose_or_load P self w") (auto simp: expose_or_load_then_save_unfold)
  with files_expose_or_load [of P self w]
  have d: "fst (expose_or_load P self w) = Inl NoDatabaseError \<longrightarrow>
        files (snd (snd (expose_or_load_then_save P now body self w))) = files w" by simp
  have n: "fst (expose_or_load P self w) = Inl NoDatabaseError \<longrightarrow> database self = None"
    by (auto simp: expose_or_load_def expose_def split: if_splits)
  have m: "fst (expose_or_load P self w) = Inl NoDatabaseError \<longrightarrow>
        (fst (database_creator self (heap w)) = Inl NoDatabaseError
            \<or> (\<exists>bytes. fst (pickle_load P bytes (heap w)) = Inl NoDatabaseError))"
  proof
    assume f: "fst (expose_or_load P self w) = Inl NoDatabaseError"
    with n have "database self = None" by blast
    with f have "fst (load P self w) = Inl NoDatabaseError"
      by (simp add: expose_or_load_def expose_def)
    then show "fst (database_creator self (heap w)) = Inl NoDatabaseError
            \<or> (\<exists>bytes. fst (pickle_load P bytes (heap w)) = Inl NoDatabaseError)"
      by (rule load_NoDatabaseError)
  qed
  from a b b' c d n m show ?thesis by blast
qed

text \<open>
  On an object that holds nothing, in a world without any file, the scope is entered, ends
  normally and has saved: the missing pointer file is no failure.
\<close>

theorem expose_or_load_then_save_cold_start_saves:
  "fst (expose_or_load_then_save string_pickle (Some (lit ''09_30_01_Mar_05_2021'')) skip_body example_store empty_world)
     = Inr ()
   \<and> file_at (snd (snd (expose_or_load_then_save string_pickle (Some (lit ''09_30_01_Mar_05_2021'')) skip_body
                          example_store empty_world)))
        (lit ''database/_most_recent_save.txt'') = Some (lit ''database/db_sv_09_30_01_Mar_05_2021.pkl'')
   \<and> file_at (snd (snd (expose_or_load_then_save string_pickle (Some (lit ''09_30_01_Mar_05_2021'')) skip_body
                          example_store empty_world)))
        (lit ''database/db_sv_09_30_01_Mar_05_2021.pkl'') = Some (0x80 # lit ''{}'')
   \<and> database example_store = None
   \<and> file_at (empty_world :: str world) (exact_most_recent_save_file example_store) = None"
proof -
  have l: "expose_or_load string_pickle example_store empty_world
     = (Inr (Some 0), example_store\<lparr>database := Some 0\<rparr>, cold_world)"
    by (simp add: expose_or_load_def expose_def load_def blank_database_def example_store_fields
          file_at_empty_world default_creator_def Let_def cold_world_def)
       (simp add: empty_world_def)
  have s: "save string_pickle (Some (lit ''09_30_01_Mar_05_2021'')) None (example_store\<lparr>database := Some 0\<rparr>) cold_world
     = (Inr (), example_store\<lparr>database := Some 0\<rparr>,
        emit (Print (lit ''Database saved at: '' @ lit ''database/db_sv_09_30_01_Mar_05_2021.pkl''))
          (write_file (lit ''database/_most_recent_save.txt'') (lit ''database/db_sv_09_30_01_Mar_05_2021.pkl'')
             (write_file (lit ''database/db_sv_09_30_01_Mar_05_2021.pkl'') (0x80 # lit ''{}'') cold_world)))"
    using save_resident [of "example_store\<lparr>database := Some 0\<rparr>" 0 string_pickle cold_world
            "0x80 # lit ''{}''" "Some (lit ''09_30_01_Mar_05_2021'')"]
    by (simp add: string_pickle_def cold_world_def formatted_def clock_notice_def save_file_update
          save_file_example_1 example_store_fields)
  have r: "resolve cold_world = normpath" by (simp add: cold_world_def empty_world_def)
  show ?thesis
    unfolding expose_or_load_then_save_unfold l
    by (simp add: skip_body_def finally_save_def s file_at_write_file r normpath_pointer
          normpath_record_1 example_store_fields file_at_empty_world)
qed

theorem expose_or_load_then_save_skips_only_NoDatabaseError_witness:
  "database example_store = None
   \<and> file_at (empty_world :: str world) (exact_most_recent_save_file example_store) = None
   \<and> database_creator example_store (heap (empty_world :: str world)) = (Inr (Some 0), [lit ''{}''])
   \<and> expose_or_load string_pickle example_store empty_world
         = (Inr (Some 0), example_store\<lparr>database := Some 0\<rparr>, cold_world)
   \<and> skip_body (database (example_store\<lparr>database := Some 0\<rparr>)) (example_store\<lparr>database := Some 0\<rparr>) cold_world
         = (Inr (), example_store\<lparr>database := Some 0\<rparr>, cold_world)
   \<and> expose_or_load_then_save string_pickle (Some (lit ''09_30_01_Mar_05_2021'')) skip_body example_store empty_world
         = (case save string_pickle (Some (lit ''09_30_01_Mar_05_2021'')) None
                  (example_store\<lparr>database := Some 0\<rparr>) cold_world of
              (Inl e, self3, w3) \<Rightarrow> (Inl e, self3, w3)
            | (Inr u, self3, w3) \<Rightarrow> (Inr (), self3, w3))
   \<and> expose_or_load string_pickle example_store dangling_world
         = (Inl RuntimeError, example_store,
            emit (OpenRead (lit ''database/db_sv_09_30_00_Mar_05_2021.pkl''))
              (emit (OpenRead (lit ''database/_most_recent_save.txt'')) dangling_world))
   \<and> RuntimeError \<noteq> NoDatabaseError
   \<and> fst (expose_or_load_then_save string_pickle (Some (lit ''09_30_01_Mar_05_2021'')) skip_body
             example_store dangling_world) = Inl NoDatabaseError
   \<and> fst (expose_or_load string_pickle raising_store empty_world) = Inl NoDatabaseError
   \<and> expose_or_load_then_save string_pickle (Some (lit ''09_30_01_Mar_05_2021'')) skip_body raising_store empty_world
         = (Inl NoDatabaseError, snd (expose_or_load string_pickle raising_store empty_world))
   \<and> files (snd (snd (expose_or_load_then_save string_pickle (Some (lit ''09_30_01_Mar_05_2021'')) skip_body
                        raising_store empty_world)))
         = files (empty_world :: str world)
   \<and> fst (database_creator raising_store (heap (empty_world :: str world))) = Inl NoDatabaseError"
proof -
  let ?now = "Some (lit ''09_30_01_Mar_05_2021'')"
  let ?Wd = "emit (OpenRead (lit ''database/db_sv_09_30_00_Mar_05_2021.pkl''))
              (emit (OpenRead (lit ''database/_most_recent_save.txt'')) dangling_world)"
  have 1: "database example_store = None" by (simp add: example_store_fields)
  have 2: "file_at (empty_world :: str world) (exact_most_recent_save_file example_store) = None"
    by (simp add: file_at_empty_world)
  have 3: "database_creator example_store (heap (empty_world :: str world)) = (Inr (Some 0), [lit ''{}''])"
    by (simp add: example_store_fields default_creator_def empty_world_def)
  have 4: "exact_most_recent_save_file example_store = lit ''database/_most_recent_save.txt''"
    by (simp add: example_store_fields)
  have 5: "skip_body (database (example_store\<lparr>database := Some 0\<rparr>)) (example_store\<lparr>database := Some 0\<rparr>) cold_world
         = (Inr (), example_store\<lparr>database := Some 0\<rparr>, cold_world)"
    by (simp add: skip_body_def)
  have 6: "fst (expose_or_load string_pickle raising_store empty_world) = Inl NoDatabaseError"
    by (simp add: expose_or_load_def expose_def load_def blank_database_def raising_store_fields
          raising_creator_def file_at_empty_world Let_def)
  have 7: "expose_or_load string_pickle example_store dangling_world = (Inl RuntimeError, example_store, ?Wd)"
    using load_dangling_world
    by (simp add: expose_or_load_def expose_def example_store_fields)
  have 8: "RuntimeError \<noteq> NoDatabaseError" by simp
  have 9: "fst (database_creator raising_store (heap (empty_world :: str world))) = Inl NoDatabaseError"
    by (simp add: raising_store_fields raising_creator_def)
  note r = expose_or_load_then_save_skips_only_NoDatabaseError
             [of example_store empty_world "Some 0" "[lit ''{}'']" string_pickle
                 "example_store\<lparr>database := Some 0\<rparr>" cold_world skip_body "Inr ()"
                 "example_store\<lparr>database := Some 0\<rparr>" cold_world ?now RuntimeError,
              unfolded 4, folded cold_world_def]
  note p = expose_or_load_then_save_skips_only_NoDatabaseError
             [of example_store dangling_world None "[]" string_pickle example_store ?Wd skip_body
                 "Inr ()" example_store ?Wd ?now RuntimeError]
  note q = expose_or_load_then_save_skips_only_NoDatabaseError
             [of raising_store empty_world None "[]" string_pickle raising_store empty_world skip_body
                 "Inr ()" raising_store empty_world ?now RuntimeError]
  from r 1 2 [unfolded 4] 3 have a: "expose_or_load string_pickle example_store empty_world
         = (Inr (Some 0), example_store\<lparr>database := Some 0\<rparr>, cold_world)" by (elim conjE) simp
  from r a 5 have b: "expose_or_load_then_save string_pickle ?now skip_body example_store empty_world
         = (case save string_pickle ?now None (example_store\<lparr>database := Some 0\<rparr>) cold_world of
              (Inl e, self3, w3) \<Rightarrow> (Inl e, self3, w3)
            | (Inr u, self3, w3) \<Rightarrow> (Inr (), self3, w3))" by (elim conjE) (rule mp, rule mp)
  from p 7 8 have "expose_or_load_then_save string_pickle ?now skip_body example_store dangling_world
         = (case save string_pickle ?now None example_store ?Wd of
              (Inl e', self3, w3) \<Rightarrow> (Inl e', self3, w3)
            | (Inr u, self3, w3) \<Rightarrow> (Inl RuntimeError, self3, w3))" by (elim conjE) (rule mp, rule mp)
  then have d: "fst (expose_or_load_then_save string_pickle ?now skip_body example_store dangling_world)
         = Inl NoDatabaseError"
    by (simp add: save_def example_store_fields)
  from q 6 have c: "expose_or_load_then_save string_pickle ?now skip_body raising_store empty_world
         = (Inl NoDatabaseError, snd (expose_or_load string_pickle raising_store empty_world))
   \<and> files (snd (snd (expose_or_load_then_save string_pickle ?now skip_body raising_store empty_world)))
         = files (empty_world :: str world)" by (elim conjE) blast
  from 1 2 3 a 5 b 7 8 d 6 c 9 show ?thesis by (intro conjI) (elim conjE, assumption)+
qed

text \<open>
  Claim C1, as the code has it. Let the object be one that \<open>__init__\<close> has set up, let
  \<open>a\<close> be a live object whose pickle, read on the heap as it is, gives an object
  \<open>r\<close> with the same state, and let the name of the new save hold no line break, not
  begin with whitespace and not name the file that the pointer file is, the time stamp
  being free of \<open>/\<close>. Then \<open>save\<close> with \<open>a\<close> succeeds, and \<open>load\<close> on a new
  \<open>DatabaseInterface\<close> for the same folder and pointer file name returns \<open>r\<close>, holds
  it, and the state of \<open>r\<close> is the state \<open>a\<close> had when it was saved.
\<close>

theorem save_then_fresh_load_round_trip:
  assumes "exact_most_recent_save_file self = join (save_folder self) (most_recent_save_file self)"
    and "a < length (heap w)"
    and "pickle_dump P (heap w ! a) = Inr bytes"
    and "pickle_load P bytes (heap w) = (Inr (Some r), h)"
    and "r < length h"
    and "h ! r = heap w ! a"
    and "sep \<notin> set (formatted now)"
    and "LF \<notin> set (save_file self (formatted now))"
    and "CR \<notin> set (save_file self (formatted now))"
    and "\<not> is_space (hd (save_file self (formatted now)))"
    and "resolve w (save_file self (formatted now)) \<noteq> resolve w (exact_most_recent_save_file self)"
  shows "fst (save P now (Some a) self w) = Inr ()
     \<and> fst (reload P creator self (snd (snd (save P now (Some a) self w)))) = Inr (Some r)
     \<and> database (fst (snd (reload P creator self (snd (snd (save P now (Some a) self w))))))
          = Some r
     \<and> heap (snd (snd (reload P creator self (snd (snd (save P now (Some a) self w)))))) ! r
          = heap w ! a"
proof -
  let ?f = "save_file self (formatted now)"
  let ?ptr = "exact_most_recent_save_file self"
  let ?self2 = "self\<lparr>database_creator := creator, database := None\<rparr>"
  define w1 where "w1 = emit (Print (lit ''Database saved at: '' @ ?f))
                (write_file ?ptr ?f (write_file ?f bytes (clock_notice now w)))"
  have s: "save P now (Some a) self w = (Inr (), self\<lparr>database := Some a\<rparr>, w1)"
    unfolding w1_def using assms(3) by (rule save_given)
  have h1: "heap w1 = heap w" by (simp add: w1_def)
  have fp: "file_at w1 (exact_most_recent_save_file ?self2) = Some ?f"
    by (simp add: w1_def file_at_write_file)
  have ff: "file_at w1 ?f = Some bytes"
    using assms(11) by (simp add: w1_def file_at_write_file)
  from save_file_last [OF assms(7), of self] have ne: "?f \<noteq> []" and "\<not> is_space (last ?f)"
    by (simp_all add: is_space_def)
  with assms(8,9,10) have st: "strip (readline ?f) = ?f" by (intro pointer_line_keeps)
  from assms(4) have pl: "pickle_load P bytes (heap w1) = (Inr (Some r), h)" by (simp add: h1)
  have l: "load P ?self2 w1
           = (Inr (Some r), ?self2\<lparr>database := Some r\<rparr>,
              emit (Print (lit ''Loaded database from '' @ ?f))
                ((emit (OpenRead ?f) (emit (OpenRead (exact_most_recent_save_file ?self2)) w1))
                   \<lparr>heap := h\<rparr>))"
    by (rule load_record [OF fp st ne ff pl])
  from reload_as_load [OF assms(1), of P creator w1] l assms(6) s show ?thesis by simp
qed

theorem save_then_fresh_load_round_trip_witness:
  "exact_most_recent_save_file example_store
      = join (save_folder example_store) (most_recent_save_file example_store)
   \<and> 0 < length (heap two_objects)
   \<and> pickle_dump string_pickle (heap two_objects ! 0) = Inr (0x80 # lit ''{wow: haha}'')
   \<and> pickle_load string_pickle (0x80 # lit ''{wow: haha}'') (heap two_objects)
        = (Inr (Some 2), [lit ''{wow: haha}'', lit ''{hi: yay}'', lit ''{wow: haha}''])
   \<and> (2::nat) < length [lit ''{wow: haha}'', lit ''{hi: yay}'', lit ''{wow: haha}'']
   \<and> [lit ''{wow: haha}'', lit ''{hi: yay}'', lit ''{wow: haha}''] ! 2 = heap two_objects ! 0
   \<and> sep \<notin> set (formatted (Some (lit ''09_30_01_Mar_05_2021'')))
   \<and> LF \<notin> set (save_file example_store (formatted (Some (lit ''09_30_01_Mar_05_2021''))))
   \<and> CR \<notin> set (save_file example_store (formatted (Some (lit ''09_30_01_Mar_05_2021''))))
   \<and> \<not> is_space (hd (save_file example_store (formatted (Some (lit ''09_30_01_Mar_05_2021'')))))
   \<and> resolve two_objects (save_file example_store (formatted (Some (lit ''09_30_01_Mar_05_2021''))))
        \<noteq> resolve two_objects (exact_most_recent_save_file example_store)
   \<and> fst (save string_pickle (Some (lit ''09_30_01_Mar_05_2021'')) (Some 0) example_store two_objects) = Inr ()
   \<and> fst (reload string_pickle (default_creator (lit ''{}'')) example_store
            (snd (snd (save string_pickle (Some (lit ''09_30_01_Mar_05_2021'')) (Some 0) example_store two_objects))))
        = Inr (Some 2)
   \<and> heap (snd (snd (reload string_pickle (default_creator (lit ''{}'')) example_store
            (snd (snd (save string_pickle (Some (lit ''09_30_01_Mar_05_2021'')) (Some 0) example_store two_objects))))))
        ! 2 = lit ''{wow: haha}''"
proof -
  have f: "save_file example_store (formatted (Some (lit ''09_30_01_Mar_05_2021'')))
             = lit ''database/db_sv_09_30_01_Mar_05_2021.pkl''"
    by (simp add: formatted_def save_file_example_1)
  have 1: "exact_most_recent_save_file example_store
      = join (save_folder example_store) (most_recent_save_file example_store)"
    by (simp add: example_store_fields join_database_pointer)
  have 2: "0 < length (heap two_objects)" by simp
  have 3: "pickle_dump string_pickle (heap two_objects ! 0) = Inr (0x80 # lit ''{wow: haha}'')"
    by simp
  have 4: "pickle_load string_pickle (0x80 # lit ''{wow: haha}'') (heap two_objects)
        = (Inr (Some 2), [lit ''{wow: haha}'', lit ''{hi: yay}'', lit ''{wow: haha}''])"
    by (simp add: pickle_load_string)
  have 5: "(2::nat) < length [lit ''{wow: haha}'', lit ''{hi: yay}'', lit ''{wow: haha}'']" by simp
  have 6: "[lit ''{wow: haha}'', lit ''{hi: yay}'', lit ''{wow: haha}''] ! 2 = heap two_objects ! 0"
    by simp
  have 7: "sep \<notin> set (formatted (Some (lit ''09_30_01_Mar_05_2021'')))"
    by (simp add: formatted_def stamp_plain)
  have 8: "LF \<notin> set (save_file example_store (formatted (Some (lit ''09_30_01_Mar_05_2021''))))"
    unfolding f by code_simp
  have 9: "CR \<notin> set (save_file example_store (formatted (Some (lit ''09_30_01_Mar_05_2021''))))"
    unfolding f by code_simp
  have 10: "\<not> is_space (hd (save_file example_store (formatted (Some (lit ''09_30_01_Mar_05_2021'')))))"
    unfolding f by code_simp
  have 11: "resolve two_objects (save_file example_store (formatted (Some (lit ''09_30_01_Mar_05_2021''))))
        \<noteq> resolve two_objects (exact_most_recent_save_file example_store)"
    unfolding f by (simp add: example_store_fields normpath_record_1 normpath_pointer)
  have v: "heap two_objects ! 0 = lit ''{wow: haha}''" by simp
  note r = save_then_fresh_load_round_trip [OF 1 2 3 4 5 6 7 8 9 10 11, of "default_creator (lit ''{}'')",
             unfolded v]
  from 1 2 3 4 5 6 7 8 9 10 11 r show ?thesis by (intro conjI) (elim conjE, assumption)+
qed

text \<open>
  Three inputs on which saving and loading again does not give the value back. \<open>None\<close>
  as the value is no value to \<open>save\<close>: on an object that holds nothing it raises
  \<open>NoDatabaseError\<close>, and the later \<open>load\<close> returns the factory's empty dictionary.
  In a folder whose name begins with a no-break space the save succeeds, but \<open>load\<close>
  strips the name it reads from the pointer file, does not find that file and raises
  \<open>RuntimeError\<close>. In the folder \<open>./database\<close> with a pointer file named as the save
  is, the two paths name one file: the pointer overwrites the pickle, and \<open>load\<close>
  fails to unpickle the pointer's text.
\<close>

theorem save_then_fresh_load_fails:
  "fst (save string_pickle (Some (lit ''09_30_01_Mar_05_2021'')) None example_store two_objects)
      = Inl NoDatabaseError
   \<and> fst (reload string_pickle (default_creator (lit ''{}'')) example_store
            (snd (snd (save string_pickle (Some (lit ''09_30_01_Mar_05_2021'')) None example_store two_objects))))
      = Inr (Some 2)
   \<and> heap (snd (snd (reload string_pickle (default_creator (lit ''{}'')) example_store
            (snd (snd (save string_pickle (Some (lit ''09_30_01_Mar_05_2021'')) None example_store two_objects))))))
        ! 2 = lit ''{}''
   \<and> fst (save string_pickle (Some (lit ''09_30_01_Mar_05_2021'')) (Some 0) spaced_store two_objects)
      = Inr ()
   \<and> fst (reload string_pickle (default_creator (lit ''{}'')) spaced_store
            (snd (snd (save string_pickle (Some (lit ''09_30_01_Mar_05_2021'')) (Some 0) spaced_store two_objects))))
      = Inl RuntimeError
   \<and> fst (save string_pickle (Some (lit ''09_30_01_Mar_05_2021'')) (Some 0) dot_store two_objects)
      = Inr ()
   \<and> fst (reload string_pickle (default_creator (lit ''{}'')) dot_store
            (snd (snd (save string_pickle (Some (lit ''09_30_01_Mar_05_2021'')) (Some 0) dot_store two_objects))))
      = Inl (OtherException ''UnpicklingError'')"
proof -
  let ?now = "Some (lit ''09_30_01_Mar_05_2021'')"
  have a: "save string_pickle ?now None example_store two_objects
      = (Inl NoDatabaseError, example_store, two_objects)"
    by (simp add: save_def example_store_fields)
  have i1: "exact_most_recent_save_file example_store
      = join (save_folder example_store) (most_recent_save_file example_store)"
    by (simp add: example_store_fields join_database_pointer)
  have b: "load string_pickle (example_store\<lparr>database_creator := default_creator (lit ''{}''), database := None\<rparr>)
             two_objects
      = (Inr (Some 2),
         example_store\<lparr>database_creator := default_creator (lit ''{}''), database := Some 2\<rparr>,
         (emit (Print (lit ''Database not loaded - blank database created''))
            (emit (OpenRead (lit ''database/_most_recent_save.txt'')) two_objects))
           \<lparr>heap := [lit ''{wow: haha}'', lit ''{hi: yay}'', lit ''{}'']\<rparr>)"
    by (simp add: load_def Let_def blank_database_def example_store_fields file_at_def
          default_creator_def)
  have c: "save string_pickle ?now (Some 0) spaced_store two_objects
     = (Inr (), spaced_store\<lparr>database := Some 0\<rparr>,
        emit (Print (lit ''Database saved at: '' @ 0xA0 # lit ''database/db_sv_09_30_01_Mar_05_2021.pkl''))
          (write_file (0xA0 # lit ''database/_most_recent_save.txt'')
             (0xA0 # lit ''database/db_sv_09_30_01_Mar_05_2021.pkl'')
             (write_file (0xA0 # lit ''database/db_sv_09_30_01_Mar_05_2021.pkl'')
                (0x80 # lit ''{wow: haha}'') two_objects)))" (is "_ = (_, _, ?Ws)")
    using save_given [of string_pickle two_objects 0 "0x80 # lit ''{wow: haha}''" ?now spaced_store]
    by (simp add: formatted_def clock_notice_def save_file_spaced spaced_store_fields)
  have i2: "exact_most_recent_save_file spaced_store
      = join (save_folder spaced_store) (most_recent_save_file spaced_store)"
    by (simp add: spaced_store_fields join_spaced_pointer)
  define Ws where "Ws = emit (Print (lit ''Database saved at: '' @ 0xA0 # lit ''database/db_sv_09_30_01_Mar_05_2021.pkl''))
          (write_file (0xA0 # lit ''database/_most_recent_save.txt'')
             (0xA0 # lit ''database/db_sv_09_30_01_Mar_05_2021.pkl'')
             (write_file (0xA0 # lit ''database/db_sv_09_30_01_Mar_05_2021.pkl'')
                (0x80 # lit ''{wow: haha}'') two_objects))"
  have d1: "file_at Ws (0xA0 # lit ''database/_most_recent_save.txt'')
              = Some (0xA0 # lit ''database/db_sv_09_30_01_Mar_05_2021.pkl'')"
    by (simp add: Ws_def file_at_write_file)
  have d2: "file_at Ws (lit ''database/db_sv_09_30_01_Mar_05_2021.pkl'') = None"
    by (simp add: Ws_def file_at_write_file normpath_spaced normpath_record_1 spaced_differs [symmetric])
  have d3: "lit ''database/db_sv_09_30_01_Mar_05_2021.pkl'' \<noteq> []" by simp
  have d: "fst (load string_pickle (spaced_store\<lparr>database_creator := default_creator (lit ''{}''), database := None\<rparr>) Ws)
      = Inl RuntimeError"
    by (rule load_missing_record [OF _ pointer_line_spaced d3 d2]) (simp add: spaced_store_fields d1)
  have e: "save string_pickle ?now (Some 0) dot_store two_objects
     = (Inr (), dot_store\<lparr>database := Some 0\<rparr>,
        emit (Print (lit ''Database saved at: '' @ lit ''database/db_sv_09_30_01_Mar_05_2021.pkl''))
          (write_file (lit ''./database/db_sv_09_30_01_Mar_05_2021.pkl'')
             (lit ''database/db_sv_09_30_01_Mar_05_2021.pkl'')
             (write_file (lit ''database/db_sv_09_30_01_Mar_05_2021.pkl'')
                (0x80 # lit ''{wow: haha}'') two_objects)))" (is "_ = (_, _, ?Wd)")
    using save_given [of string_pickle two_objects 0 "0x80 # lit ''{wow: haha}''" ?now dot_store]
    by (simp add: formatted_def clock_notice_def save_file_dot dot_store_fields)
  have i3: "exact_most_recent_save_file dot_store
      = join (save_folder dot_store) (most_recent_save_file dot_store)"
    by (simp add: dot_store_fields join_dot_pointer)
  define Wd where "Wd = emit (Print (lit ''Database saved at: '' @ lit ''database/db_sv_09_30_01_Mar_05_2021.pkl''))
          (write_file (lit ''./database/db_sv_09_30_01_Mar_05_2021.pkl'')
             (lit ''database/db_sv_09_30_01_Mar_05_2021.pkl'')
             (write_file (lit ''database/db_sv_09_30_01_Mar_05_2021.pkl'')
                (0x80 # lit ''{wow: haha}'') two_objects))"
  have g1: "file_at Wd (lit ''./database/db_sv_09_30_01_Mar_05_2021.pkl'')
              = Some (lit ''database/db_sv_09_30_01_Mar_05_2021.pkl'')"
    by (simp add: Wd_def file_at_write_file)
  have g2: "file_at Wd (lit ''database/db_sv_09_30_01_Mar_05_2021.pkl'')
              = Some (lit ''database/db_sv_09_30_01_Mar_05_2021.pkl'')"
    by (simp add: Wd_def file_at_write_file normpath_dot_pointer normpath_record_1)
  have k: "lit ''database/db_sv_09_30_01_Mar_05_2021.pkl'' = 100 # lit ''atabase/db_sv_09_30_01_Mar_05_2021.pkl''"
    by (simp add: lit_def)
  have g3: "pickle_load string_pickle (lit ''database/db_sv_09_30_01_Mar_05_2021.pkl'') (heap Wd)
              = (Inl (OtherException ''UnpicklingError''), heap Wd)"
    unfolding k by (simp add: pickle_load_string)
  have g: "fst (load string_pickle (dot_store\<lparr>database_creator := default_creator (lit ''{}''), database := None\<rparr>) Wd)
      = Inl (OtherException ''UnpicklingError'')"
    using load_unpickle_error [OF _ pointer_line_record_1 d3 g2 g3,
            of "dot_store\<lparr>database_creator := default_creator (lit ''{}''), database := None\<rparr>"]
    by (simp add: dot_store_fields g1)
  show ?thesis
    unfolding a c e snd_conv reload_as_load [OF i1] reload_as_load [OF i2] reload_as_load [OF i3]
    using b d [unfolded Ws_def] g [unfolded Wd_def] by simp
qed

text \<open>
  Claim C2, as the code has it. Let a run of calls of \<open>save\<close> all succeed, at time stamps
  that differ from each other and hold no \<open>/\<close>, on a file system where the names of
  these saves are names of different files and none of them is the pointer file. Then
  the saves are different files; every save is on disk at the end with the content it had
  right after its own call; the pointer file holds the name of the last save; and every
  file that is neither the pointer file nor one of the saves is as it was before the
  first call.
\<close>

theorem saves_history_append_only:
  assumes "saves P calls self w = (Inr (), self1, w1)"
    and "distinct (map (\<lambda>c. formatted (fst c)) calls)"
    and "\<forall>c\<in>set calls. sep \<notin> set (formatted (fst c))"
    and "inj_on (resolve w) ((\<lambda>c. save_file self (formatted (fst c))) ` set calls)"
    and "\<forall>c\<in>set calls. resolve w (save_file self (formatted (fst c)))
                           \<noteq> resolve w (exact_most_recent_save_file self)"
  shows "distinct (map (\<lambda>c. resolve w (save_file self (formatted (fst c)))) calls)
     \<and> (\<forall>i<length calls.
          file_at w1 (save_file self (formatted (fst (calls ! i)))) \<noteq> None
          \<and> file_at w1 (save_file self (formatted (fst (calls ! i))))
              = file_at (snd (snd (saves P (take (Suc i) calls) self w)))
                  (save_file self (formatted (fst (calls ! i)))))
     \<and> (calls \<noteq> [] \<longrightarrow>
          file_at w1 (exact_most_recent_save_file self)
            = Some (save_file self (formatted (fst (last calls)))))
     \<and> (\<forall>i. i \<noteq> resolve w (exact_most_recent_save_file self)
            \<and> i \<notin> (\<lambda>c. resolve w (save_file self (formatted (fst c)))) ` set calls \<longrightarrow>
          files w1 i = files w i)"
proof -
  let ?R = "\<lambda>c. save_file self (formatted (fst c))"
  let ?F = "\<lambda>c. resolve w (save_file self (formatted (fst c)))"
  from saves_keeps_fields [OF assms(1)] have r1: "resolve w1 = resolve w" by simp
  have "distinct (map ?R calls)"
    using assms(2,3) by (rule distinct_save_files)
  with assms(4) have "distinct (map (resolve w) (map ?R calls))"
    by (simp add: distinct_map del: map_map)
  then have d: "distinct (map ?F calls)" by (simp add: comp_def)
  have r: "file_at w1 (?R (calls ! i)) \<noteq> None
          \<and> file_at w1 (?R (calls ! i))
              = file_at (snd (snd (saves P (take (Suc i) calls) self w))) (?R (calls ! i))"
    if i: "i < length calls" for i
  proof -
    have split: "calls = take (Suc i) calls @ drop (Suc i) calls" by simp
    have tk: "take (Suc i) calls = take i calls @ [calls ! i]"
      using i by (rule take_Suc_conv_app_nth)
    from assms(1) obtain u0 self0 w0 where
      pre: "saves P (take (Suc i) calls) self w = (Inr u0, self0, w0)"
      and post: "saves P (drop (Suc i) calls) self0 w0 = (Inr (), self1, w1)"
      using saves_append [of P "take (Suc i) calls" "drop (Suc i) calls" self w]
      by (auto split: prod.splits sum.splits)
    from saves_keeps_fields [OF pre] have k: "save_folder self0 = save_folder self"
      "exact_most_recent_save_file self0 = exact_most_recent_save_file self"
      "resolve w0 = resolve w" by simp_all
    from i have mem: "calls ! i \<in> set calls" by simp
    with assms(5) have np: "?F (calls ! i) \<noteq> resolve w (exact_most_recent_save_file self)" by blast
    from d have "distinct (map ?F (take (Suc i) calls) @ map ?F (drop (Suc i) calls))"
      by (metis split map_append)
    then have "?F (calls ! i) \<notin> ?F ` set (drop (Suc i) calls)"
      by (auto simp: tk)
    then have "?F (calls ! i) \<notin> (\<lambda>c. resolve w0 (save_file self0 (formatted (fst c)))) ` set (drop (Suc i) calls)"
      by (simp add: save_file_folder [OF k(1)] k(3))
    with saves_other_files [OF post] np k
    have keep: "files w1 (?F (calls ! i)) = files w0 (?F (calls ! i))" by simp
    from pre have "saves P (take i calls @ [calls ! i]) self w = (Inr u0, self0, w0)"
      by (simp add: tk)
    from saves_last_record [OF this np] have "files w0 (?F (calls ! i)) \<noteq> None" .
    with keep pre show ?thesis by (simp add: file_at_def r1 k(3))
  qed
  have p: "calls \<noteq> [] \<longrightarrow>
          file_at w1 (exact_most_recent_save_file self)
            = Some (save_file self (formatted (fst (last calls))))"
    using saves_pointer [OF assms(1)] by (simp add: file_at_def r1)
  have o: "\<forall>i. i \<noteq> resolve w (exact_most_recent_save_file self)
            \<and> i \<notin> ?F ` set calls \<longrightarrow> files w1 i = files w i"
    using saves_other_files [OF assms(1)] by blast
  from d r p o show ?thesis by blast
qed

theorem saves_history_append_only_witness:
  "saves string_pickle history_calls example_store two_objects
     = (Inr (), fst (snd (saves string_pickle history_calls example_store two_objects)),
        snd (snd (saves string_pickle history_calls example_store two_objects)))
   \<and> distinct (map (\<lambda>c. formatted (fst c)) history_calls)
   \<and> sep \<notin> set (formatted (fst (history_calls ! 0)))
   \<and> sep \<notin> set (formatted (fst (history_calls ! 1)))
   \<and> inj_on (resolve two_objects) ((\<lambda>c. save_file example_store (formatted (fst c))) ` set history_calls)
   \<and> resolve two_objects (save_file example_store (formatted (fst (history_calls ! 0))))
        \<noteq> resolve two_objects (exact_most_recent_save_file example_store)
   \<and> resolve two_objects (save_file example_store (formatted (fst (history_calls ! 1))))
        \<noteq> resolve two_objects (exact_most_recent_save_file example_store)
   \<and> distinct (map (\<lambda>c. resolve two_objects (save_file example_store (formatted (fst c)))) history_calls)
   \<and> file_at (snd (snd (saves string_pickle history_calls example_store two_objects)))
        (exact_most_recent_save_file example_store)
        = Some (save_file example_store (formatted (fst (last history_calls))))
   \<and> file_at (snd (snd (saves string_pickle history_calls example_store two_objects)))
        (save_file example_store (formatted (fst (history_calls ! 0)))) \<noteq> None
   \<and> file_at (snd (snd (saves string_pickle history_calls example_store two_objects)))
        (save_file example_store (formatted (fst (history_calls ! 1)))) \<noteq> None"
proof -
  have 1: "saves string_pickle history_calls example_store two_objects
     = (Inr (), fst (snd (saves string_pickle history_calls example_store two_objects)),
        snd (snd (saves string_pickle history_calls example_store two_objects)))"
    using saves_history_calls by (simp add: prod_eq_iff)
  have 2: "distinct (map (\<lambda>c. formatted (fst c)) history_calls)"
    by (simp add: history_calls_def formatted_def)
  have 3: "\<forall>c\<in>set history_calls. sep \<notin> set (formatted (fst c))"
    by (simp add: history_calls_def formatted_def stamp_plain)
  have 4: "inj_on (resolve two_objects) ((\<lambda>c. save_file example_store (formatted (fst c))) ` set history_calls)"
    by (simp add: history_calls_def formatted_def save_file_example_0 save_file_example_1
          normpath_record_0 normpath_record_1)
  have 5: "\<forall>c\<in>set history_calls.
         resolve two_objects (save_file example_store (formatted (fst c)))
           \<noteq> resolve two_objects (exact_most_recent_save_file example_store)"
    by (simp add: history_calls_def formatted_def save_file_example_0 save_file_example_1
          example_store_fields normpath_record_0 normpath_record_1 normpath_pointer)
  have 6: "history_calls \<noteq> []" "0 < length history_calls" "1 < length history_calls"
    "history_calls ! 0 \<in> set history_calls" "history_calls ! 1 \<in> set history_calls"
    by (simp_all add: history_calls_def)
  from saves_history_append_only [OF 1 2 3 4 5] 1 2 3 4 5 6 show ?thesis by blast
qed

text \<open>
  Two calls of \<open>save\<close> within one second write the same file: after both there is one
  save on disk, and the value the first call wrote is gone. And in the folder
  \<open>./database\<close>, with a pointer file named as the save is, the two paths name one file
  and the pointer overwrites the save at once.
\<close>

theorem saves_same_second_overwrites:
  "fst (saves string_pickle
          [(Some (lit ''09_30_01_Mar_05_2021''), Some 0), (Some (lit ''09_30_01_Mar_05_2021''), Some 1)]
          example_store two_objects) = Inr ()
   \<and> file_at (snd (snd (saves string_pickle [(Some (lit ''09_30_01_Mar_05_2021''), Some 0)]
                         example_store two_objects)))
        (lit ''database/db_sv_09_30_01_Mar_05_2021.pkl'') = Some (0x80 # lit ''{wow: haha}'')
   \<and> file_at (snd (snd (saves string_pickle
                         [(Some (lit ''09_30_01_Mar_05_2021''), Some 0), (Some (lit ''09_30_01_Mar_05_2021''), Some 1)]
                         example_store two_objects)))
        (lit ''database/db_sv_09_30_01_Mar_05_2021.pkl'') = Some (0x80 # lit ''{hi: yay}'')
   \<and> dom (files (snd (snd (saves string_pickle
                         [(Some (lit ''09_30_01_Mar_05_2021''), Some 0), (Some (lit ''09_30_01_Mar_05_2021''), Some 1)]
                         example_store two_objects))))
        = {lit ''database/db_sv_09_30_01_Mar_05_2021.pkl'', lit ''database/_most_recent_save.txt''}
   \<and> fst (save string_pickle (Some (lit ''09_30_01_Mar_05_2021'')) (Some 0) dot_store two_objects) = Inr ()
   \<and> file_at (snd (snd (save string_pickle (Some (lit ''09_30_01_Mar_05_2021'')) (Some 0) dot_store two_objects)))
        (lit ''database/db_sv_09_30_01_Mar_05_2021.pkl'') = Some (lit ''database/db_sv_09_30_01_Mar_05_2021.pkl'')"
proof -
  let ?now = "Some (lit ''09_30_01_Mar_05_2021'')"
  let ?rec = "lit ''database/db_sv_09_30_01_Mar_05_2021.pkl''"
  let ?ptr = "lit ''database/_most_recent_save.txt''"
  have s1: "save string_pickle ?now (Some a) (example_store\<lparr>database := d\<rparr>) w
     = (Inr (), example_store\<lparr>database := Some a\<rparr>,
        emit (Print (lit ''Database saved at: '' @ ?rec))
          (write_file ?ptr ?rec (write_file ?rec (0x80 # heap w ! a) w)))" for a d and w :: "str world"
    using save_given [of string_pickle w a "0x80 # heap w ! a" ?now "example_store\<lparr>database := d\<rparr>"]
    by (simp add: formatted_def clock_notice_def save_file_update save_file_example_1 example_store_fields)
  have s0: "save string_pickle ?now (Some a) example_store w
     = (Inr (), example_store\<lparr>database := Some a\<rparr>,
        emit (Print (lit ''Database saved at: '' @ ?rec))
          (write_file ?ptr ?rec (write_file ?rec (0x80 # heap w ! a) w)))" for a and w :: "str world"
    using save_given [of string_pickle w a "0x80 # heap w ! a" ?now example_store]
    by (simp add: formatted_def clock_notice_def save_file_example_1 example_store_fields)
  have e: "save string_pickle ?now (Some 0) dot_store two_objects
     = (Inr (), dot_store\<lparr>database := Some 0\<rparr>,
        emit (Print (lit ''Database saved at: '' @ ?rec))
          (write_file (lit ''./database/db_sv_09_30_01_Mar_05_2021.pkl'') ?rec
             (write_file ?rec (0x80 # lit ''{wow: haha}'') two_objects)))"
    using save_given [of string_pickle two_objects 0 "0x80 # lit ''{wow: haha}''" ?now dot_store]
    by (simp add: formatted_def clock_notice_def save_file_dot dot_store_fields)
  have one: "saves string_pickle [(?now, Some 0)] example_store two_objects
     = (Inr (), example_store\<lparr>database := Some 0\<rparr>,
        emit (Print (lit ''Database saved at: '' @ ?rec))
          (write_file ?ptr ?rec (write_file ?rec (0x80 # lit ''{wow: haha}'') two_objects)))"
    unfolding saves.simps s0 by simp
  have two: "saves string_pickle [(?now, Some 0), (?now, Some 1)] example_store two_objects
     = (Inr (), example_store\<lparr>database := Some 1\<rparr>,
        emit (Print (lit ''Database saved at: '' @ ?rec))
          (write_file ?ptr ?rec (write_file ?rec (0x80 # lit ''{hi: yay}'')
             (emit (Print (lit ''Database saved at: '' @ ?rec))
                (write_file ?ptr ?rec (write_file ?rec (0x80 # lit ''{wow: haha}'') two_objects))))))"
    unfolding saves.simps s0 prod.case sum.case s1 by simp
  have n: "?rec \<noteq> ?ptr" by simp
  show ?thesis
    unfolding one two e
    by (auto simp: file_at_write_file files_write_file normpath_record_1 normpath_pointer
          normpath_dot_pointer n)
qed

end
